theory Spec2Isabelle
  imports Complex_Main "HOL-Library.Sublist" "HOL-Library.AList"
begin

section \<open>The DWD loader: decoders, point builder and source selection\<close>

text \<open>
  A shallow embedding of \<^verbatim>\<open>dwd_influx.py\<close>. Python strings are \<open>string\<close>; a
  \<open>char\<close> stands for one code point below 256, so the character classes below are
  Python's restricted to that range. Exceptions are values of \<open>py_error\<close>; a function
  that may raise returns \<open>py_error + 'a\<close> with \<open>Inl\<close> for the exception.
\<close>

datatype py_error =
  IndexError | ValueError | TypeError | OverflowError
  | RequestException | HTTPError | BadZipFile | CsvError

subsection \<open>Built-in string operations\<close>

definition code_point :: "char \<Rightarrow> nat" where
  "code_point c = of_char c"

text \<open>\<^verbatim>\<open>str.isspace\<close> on one character: TAB, LF, VT, FF, CR, FS, GS, RS, US, space,
  NEL and the no-break space.\<close>

definition isspace :: "char \<Rightarrow> bool" where
  "isspace c = (code_point c \<in> {9, 10, 11, 12, 13, 28, 29, 30, 31, 32, 133, 160})"

definition str_strip :: "string \<Rightarrow> string" where
  "str_strip s = rev (dropWhile isspace (rev (dropWhile isspace s)))"

text \<open>\<^verbatim>\<open>s.split(sep)\<close> for a separator of one character: never the empty list.\<close>

fun str_split :: "char \<Rightarrow> string \<Rightarrow> string list" where
  "str_split sep [] = [[]]"
| "str_split sep (c # cs) =
     (if c = sep then [] # str_split sep cs
      else (case str_split sep cs of
              [] \<Rightarrow> [[c]]
            | p # ps \<Rightarrow> (c # p) # ps))"

fun str_join :: "string \<Rightarrow> string list \<Rightarrow> string" where
  "str_join sep [] = []"
| "str_join sep [x] = x"
| "str_join sep (x # y # ys) = x @ sep @ str_join sep (y # ys)"

text \<open>\<^verbatim>\<open>str.splitlines\<close>: a line ends at LF, CR, CR LF, VT, FF, FS, GS, RS or NEL;
  the text after the last line end is a line only when it is not empty.\<close>

definition is_linebreak :: "char \<Rightarrow> bool" where
  "is_linebreak c = (code_point c \<in> {10, 11, 12, 13, 28, 29, 30, 133})"

fun splitlines_from :: "string \<Rightarrow> string \<Rightarrow> string list" where
  "splitlines_from cur [] = (if cur = [] then [] else [rev cur])"
| "splitlines_from cur [c] =
     (if is_linebreak c then [rev cur] else [rev (c # cur)])"
| "splitlines_from cur (c # d # cs) =
     (if code_point c = 13 \<and> code_point d = 10 then rev cur # splitlines_from [] cs
      else if is_linebreak c then rev cur # splitlines_from [] (d # cs)
      else splitlines_from (c # cur) (d # cs))"

definition str_splitlines :: "string \<Rightarrow> string list" where
  "str_splitlines s = splitlines_from [] s"

definition str_startswith :: "string \<Rightarrow> string \<Rightarrow> bool" where
  "str_startswith s p = prefix p s"

definition str_endswith :: "string \<Rightarrow> string \<Rightarrow> bool" where
  "str_endswith s p = suffix p s"

text \<open>\<^verbatim>\<open>s.replace(",", ".")\<close>.\<close>

definition comma_to_dot :: "string \<Rightarrow> string" where
  "comma_to_dot s = map (\<lambda>c. if c = CHR '','' then CHR ''.'' else c) s"

text \<open>\<^verbatim>\<open>s.zfill(width)\<close>: zeros on the left up to the width, after a leading sign.\<close>

definition str_zfill :: "nat \<Rightarrow> string \<Rightarrow> string" where
  "str_zfill width s =
     (if width \<le> length s then s
      else (case s of
              [] \<Rightarrow> replicate width (CHR ''0'')
            | c # cs \<Rightarrow>
                if c = CHR ''+'' \<or> c = CHR ''-''
                then c # replicate (width - length s) (CHR ''0'') @ cs
                else replicate (width - length s) (CHR ''0'') @ s))"

subsection \<open>\<^verbatim>\<open>int(str)\<close> and \<^verbatim>\<open>float(str)\<close>\<close>

definition is_digit :: "char \<Rightarrow> bool" where
  "is_digit c = (48 \<le> code_point c \<and> code_point c \<le> 57)"

definition digit_val :: "char \<Rightarrow> nat" where
  "digit_val c = code_point c - 48"

text \<open>The grammar's \<^verbatim>\<open>digitpart\<close>: digits, with single underscores between digits.\<close>

fun digitpart :: "string \<Rightarrow> bool" where
  "digitpart [] = False"
| "digitpart [c] = is_digit c"
| "digitpart (c # d # cs) =
     (is_digit c \<and> (if d = CHR ''_'' then digitpart cs else digitpart (d # cs)))"

definition digits_of :: "string \<Rightarrow> string" where
  "digits_of s = filter is_digit s"

definition digits_value :: "string \<Rightarrow> nat" where
  "digits_value s = foldl (\<lambda>n c. 10 * n + digit_val c) 0 (digits_of s)"

text \<open>An optional sign: whether it is a minus, and the rest.\<close>

fun split_sign :: "string \<Rightarrow> bool \<times> string" where
  "split_sign [] = (False, [])"
| "split_sign (c # cs) =
     (if c = CHR ''-'' then (True, cs)
      else if c = CHR ''+'' then (False, cs)
      else (False, c # cs))"

text \<open>
  The white space \<^verbatim>\<open>int\<close> and \<^verbatim>\<open>float\<close> skip around a number is narrower than
  that of \<^verbatim>\<open>str.strip\<close>: the interpreter first turns every white-space character from
  code point 127 on into a space (below 256 these are NEL and the no-break space) and
  then skips the ASCII white space TAB, LF, VT, FF, CR and space. The separators FS, GS,
  RS and US are not skipped, so a number next to one of them is an error.
\<close>

definition number_space :: "char \<Rightarrow> bool" where
  "number_space c = (code_point c \<in> {9, 10, 11, 12, 13, 32, 133, 160})"

definition number_strip :: "string \<Rightarrow> string" where
  "number_strip s = rev (dropWhile number_space (rev (dropWhile number_space s)))"

text \<open>\<^verbatim>\<open>int(s)\<close> in base ten: surrounding white space, a sign, a digit part. The
  interpreter's optional cap on the number of digits is not modelled.\<close>

definition py_int :: "string \<Rightarrow> py_error + int" where
  "py_int s =
     (case split_sign (number_strip s) of
        (neg, body) \<Rightarrow>
          if digitpart body
          then Inr (if neg then - int (digits_value body) else int (digits_value body))
          else Inl ValueError)"

text \<open>A float is an infinity with its sign (\<open>True\<close> for minus), not-a-number, or
  finite. A finite double is kept as the decimal it was read from: it is the double
  nearest to that decimal, and the rounding inside the range is not modelled; \<open>-0.0\<close>
  is \<open>0\<close>.\<close>

datatype pyfloat = Finite rat | Infinity bool | NaN

text \<open>The ends of the range are modelled: a decimal from \<open>2^1024 - 2^970\<close> on (half
  way between the largest double and \<open>2^1024\<close>) is read as an infinity, one up to
  \<open>2^-1075\<close> (half the smallest double) as zero.\<close>

definition float_of_decimal :: "bool \<Rightarrow> rat \<Rightarrow> pyfloat" where
  "float_of_decimal neg q =
     (if 2 ^ 1024 - 2 ^ 970 \<le> q then Infinity neg
      else if q \<le> 1 / 2 ^ 1075 then Finite 0
      else Finite (if neg then - q else q))"

definition to_lower :: "char \<Rightarrow> char" where
  "to_lower c =
     (if 65 \<le> code_point c \<and> code_point c \<le> 90 then char_of (code_point c + 32) else c)"

definition is_exp_mark :: "char \<Rightarrow> bool" where
  "is_exp_mark c = (c = CHR ''e'' \<or> c = CHR ''E'')"

definition scale10 :: "int \<Rightarrow> rat" where
  "scale10 e = (if 0 \<le> e then 10 ^ nat e else 1 / 10 ^ nat (- e))"

text \<open>The exponent after the mark: \<^verbatim>\<open>[sign] digitpart\<close>.\<close>

definition exponent_of :: "string \<Rightarrow> int option" where
  "exponent_of s =
     (case split_sign s of
        (neg, ds) \<Rightarrow>
          if digitpart ds
          then Some (if neg then - int (digits_value ds) else int (digits_value ds))
          else None)"

text \<open>\<^verbatim>\<open>floatnumber\<close>: \<^verbatim>\<open>[digitpart] "." digitpart | digitpart ["."]\<close>, then an
  optional exponent.\<close>

definition floatnumber :: "string \<Rightarrow> rat option" where
  "floatnumber s =
     (let mant = takeWhile (\<lambda>c. \<not> is_exp_mark c) s;
          rest = dropWhile (\<lambda>c. \<not> is_exp_mark c) s;
          ip = takeWhile (\<lambda>c. c \<noteq> CHR ''.'') mant;
          dotted = dropWhile (\<lambda>c. c \<noteq> CHR ''.'') mant;
          fp = tl dotted;
          mant_ok =
            (if dotted = [] then digitpart ip
             else (ip = [] \<or> digitpart ip) \<and> (fp = [] \<or> digitpart fp)
                  \<and> \<not> (ip = [] \<and> fp = []));
          ex = (if rest = [] then Some 0 else exponent_of (tl rest))
      in if mant_ok
         then (case ex of
                 None \<Rightarrow> None
               | Some e \<Rightarrow>
                   Some (of_nat (digits_value (ip @ fp))
                         * scale10 (e - int (length (digits_of fp)))))
         else None)"

definition py_float :: "string \<Rightarrow> py_error + pyfloat" where
  "py_float s =
     (case split_sign (number_strip s) of
        (neg, body) \<Rightarrow>
          if map to_lower body = ''inf'' \<or> map to_lower body = ''infinity''
          then Inr (Infinity neg)
          else if map to_lower body = ''nan'' then Inr NaN
          else (case floatnumber body of
                  None \<Rightarrow> Inl ValueError
                | Some q \<Rightarrow> Inr (float_of_decimal neg q)))"

subsection \<open>\<^verbatim>\<open>datetime\<close>\<close>

text \<open>The loader only builds instants with whole minutes.\<close>

record datetime =
  year :: int
  month :: int
  day :: int
  hour :: int
  minute :: int

definition is_leap :: "int \<Rightarrow> bool" where
  "is_leap y = (y mod 4 = 0 \<and> (y mod 100 \<noteq> 0 \<or> y mod 400 = 0))"

definition days_in_month :: "int \<Rightarrow> int \<Rightarrow> int" where
  "days_in_month y m =
     (if m = 2 then (if is_leap y then 29 else 28)
      else if m \<in> {4, 6, 9, 11} then 30 else 31)"

text \<open>The constructor \<^verbatim>\<open>datetime(year, month, day, hour, minute)\<close>: OverflowError for
  an argument outside the C \<^verbatim>\<open>int\<close> range, ValueError for one outside the calendar.\<close>

definition c_int_range :: "int \<Rightarrow> bool" where
  "c_int_range n = (- 2147483648 \<le> n \<and> n \<le> 2147483647)"

definition py_datetime :: "int \<Rightarrow> int \<Rightarrow> int \<Rightarrow> int \<Rightarrow> int \<Rightarrow> py_error + datetime" where
  "py_datetime y m d h mi =
     (if \<not> (c_int_range y \<and> c_int_range m \<and> c_int_range d \<and> c_int_range h \<and> c_int_range mi)
      then Inl OverflowError
      else if 1 \<le> y \<and> y \<le> 9999 \<and> 1 \<le> m \<and> m \<le> 12 \<and> 1 \<le> d \<and> d \<le> days_in_month y m
              \<and> 0 \<le> h \<and> h \<le> 23 \<and> 0 \<le> mi \<and> mi \<le> 59
      then Inr \<lparr>year = y, month = m, day = d, hour = h, minute = mi\<rparr>
      else Inl ValueError)"

text \<open>
  \<^verbatim>\<open>datetime.strptime(s, "%Y%m%d%H%M")\<close>. The library turns the format into the regular
  expression
  \<^verbatim>\<open>(\d\d\d\d)(1[0-2]|0[1-9]|[1-9])(3[0-1]|[1-2]\d|0[1-9]|[1-9]| [1-9])(2[0-3]|[0-1]\d|\d)([0-5]\d|\d)\<close>
  and matches it at the start of the string, backtracking through the alternatives in
  their order; text left after the match is an error. Each group below lists its matches
  (the number read and the rest of the string) in the order the matcher tries them, so the
  match found is the first of the list.
\<close>

definition in_range :: "nat \<Rightarrow> nat \<Rightarrow> char \<Rightarrow> bool" where
  "in_range lo hi c = (lo \<le> code_point c \<and> code_point c \<le> hi)"

definition one_char :: "(char \<Rightarrow> bool) \<Rightarrow> string \<Rightarrow> (nat \<times> string) list" where
  "one_char p s =
     (case s of
        a # r \<Rightarrow> if p a then [(digit_val a, r)] else []
      | _ \<Rightarrow> [])"

definition two_chars :: "(char \<Rightarrow> bool) \<Rightarrow> (char \<Rightarrow> bool) \<Rightarrow> string \<Rightarrow> (nat \<times> string) list" where
  "two_chars p q s =
     (case s of
        a # b # r \<Rightarrow> if p a \<and> q b then [(10 * digit_val a + digit_val b, r)] else []
      | _ \<Rightarrow> [])"

definition space_digit :: "string \<Rightarrow> (nat \<times> string) list" where
  "space_digit s =
     (case s of
        a # b # r \<Rightarrow> if a = CHR '' '' \<and> in_range 49 57 b then [(digit_val b, r)] else []
      | _ \<Rightarrow> [])"

definition re_Y :: "string \<Rightarrow> (nat \<times> string) list" where
  "re_Y s =
     (case s of
        a # b # c # d # r \<Rightarrow>
          if is_digit a \<and> is_digit b \<and> is_digit c \<and> is_digit d
          then [(1000 * digit_val a + 100 * digit_val b + 10 * digit_val c + digit_val d, r)]
          else []
      | _ \<Rightarrow> [])"

definition re_m :: "string \<Rightarrow> (nat \<times> string) list" where
  "re_m s =
     two_chars (in_range 49 49) (in_range 48 50) s
     @ two_chars (in_range 48 48) (in_range 49 57) s
     @ one_char (in_range 49 57) s"

definition re_d :: "string \<Rightarrow> (nat \<times> string) list" where
  "re_d s =
     two_chars (in_range 51 51) (in_range 48 49) s
     @ two_chars (in_range 49 50) is_digit s
     @ two_chars (in_range 48 48) (in_range 49 57) s
     @ one_char (in_range 49 57) s
     @ space_digit s"

definition re_H :: "string \<Rightarrow> (nat \<times> string) list" where
  "re_H s =
     two_chars (in_range 50 50) (in_range 48 51) s
     @ two_chars (in_range 48 49) is_digit s
     @ one_char is_digit s"

definition re_M :: "string \<Rightarrow> (nat \<times> string) list" where
  "re_M s = two_chars (in_range 48 53) is_digit s @ one_char is_digit s"

definition strptime_matches :: "string \<Rightarrow> ((nat \<times> nat \<times> nat \<times> nat \<times> nat) \<times> string) list" where
  "strptime_matches s =
     [((y, m, d, h, mi), s5).
        (y, s1) \<leftarrow> re_Y s, (m, s2) \<leftarrow> re_m s1, (d, s3) \<leftarrow> re_d s2,
        (h, s4) \<leftarrow> re_H s3, (mi, s5) \<leftarrow> re_M s4]"

definition strptime :: "string \<Rightarrow> py_error + datetime" where
  "strptime s =
     (case strptime_matches s of
        [] \<Rightarrow> Inl ValueError
      | ((y, m, d, h, mi), rest) # _ \<Rightarrow>
          if rest \<noteq> [] then Inl ValueError
          else py_datetime (int y) (int m) (int d) (int h) (int mi))"

subsection \<open>Values, dictionaries and points\<close>

datatype pyval = PyNone | PyStr string | PyFloat pyfloat | PyTime datetime

text \<open>Truth value testing, as \<^verbatim>\<open>if x:\<close> does it.\<close>

fun truthy :: "pyval \<Rightarrow> bool" where
  "truthy PyNone = False"
| "truthy (PyStr s) = (s \<noteq> [])"
| "truthy (PyFloat f) = (f \<noteq> Finite 0)"
| "truthy (PyTime t) = True"

text \<open>A \<^verbatim>\<open>dict\<close> with string keys, in insertion order: an association list whose keys
  are distinct.\<close>

type_synonym dict = "(string \<times> pyval) list"

definition dict_ok :: "dict \<Rightarrow> bool" where
  "dict_ok d = distinct (map fst d)"

text \<open>\<^verbatim>\<open>d.pop(key, None)\<close>: the value and the dictionary without the key.\<close>

definition dict_pop :: "string \<Rightarrow> dict \<Rightarrow> pyval \<times> dict" where
  "dict_pop k d =
     ((case map_of d k of None \<Rightarrow> PyNone | Some v \<Rightarrow> v), AList.delete k d)"

text \<open>An entry after \<^verbatim>\<open>pop("station_id", None)\<close> and \<^verbatim>\<open>pop("time", None)\<close>.\<close>

abbreviation (input) remaining :: "dict \<Rightarrow> dict" where
  "remaining entry \<equiv> AList.delete ''time'' (AList.delete ''station_id'' entry)"

record point =
  p_measurement :: string
  p_tags :: "(string \<times> pyval) list"
  p_time :: pyval
  p_fields :: "(string \<times> pyval) list"

definition Point :: "string \<Rightarrow> point" where
  "Point m = \<lparr>p_measurement = m, p_tags = [], p_time = PyNone, p_fields = []\<rparr>"

definition point_tag :: "string \<Rightarrow> pyval \<Rightarrow> point \<Rightarrow> point" where
  "point_tag k v p = p\<lparr>p_tags := AList.update k v (p_tags p)\<rparr>"

definition point_time :: "pyval \<Rightarrow> point \<Rightarrow> point" where
  "point_time t p = p\<lparr>p_time := t\<rparr>"

text \<open>Modelled from the spec: the class \<^verbatim>\<open>Point\<close> of the InfluxDB client library
  is not under src/. The spec's point builder says of \<^verbatim>\<open>field\<close>: "a null field is
  simply omitted rather than written as null"; any other value is the field's value.\<close>

definition point_field :: "string \<Rightarrow> pyval \<Rightarrow> point \<Rightarrow> point" where
  "point_field k v p =
     (if v = PyNone then p else p\<lparr>p_fields := AList.update k v (p_fields p)\<rparr>)"

subsection \<open>Raising and catching\<close>

text \<open>Sequencing of two steps that may raise: the second runs on the first's value.\<close>

definition and_then :: "py_error + 'a \<Rightarrow> ('a \<Rightarrow> py_error + 'b) \<Rightarrow> py_error + 'b" where
  "and_then r f = (case r of Inl e \<Rightarrow> Inl e | Inr x \<Rightarrow> f x)"

text \<open>\<^verbatim>\<open>xs[i]\<close> for an index that is not negative.\<close>

definition item :: "'a list \<Rightarrow> nat \<Rightarrow> py_error + 'a" where
  "item xs i = (if i < length xs then Inr (xs ! i) else Inl IndexError)"

text \<open>A loop whose body appends to a list or raises: the items appended, or the first
  exception.\<close>

fun collect :: "('a \<Rightarrow> py_error + 'b list) \<Rightarrow> 'a list \<Rightarrow> py_error + 'b list" where
  "collect f [] = Inr []"
| "collect f (x # xs) =
     (case f x of
        Inl e \<Rightarrow> Inl e
      | Inr ys \<Rightarrow> (case collect f xs of Inl e \<Rightarrow> Inl e | Inr zs \<Rightarrow> Inr (ys @ zs)))"

subsection \<open>The multi-annual means decoder\<close>

record means_row =
  row_station_id :: string
  row_reference_period :: string
  row_Jan :: pyfloat
  row_Feb :: pyfloat
  row_Mar :: pyfloat
  row_Apr :: pyfloat
  row_May :: pyfloat
  row_Jun :: pyfloat
  row_Jul :: pyfloat
  row_Aug :: pyfloat
  row_Sep :: pyfloat
  row_Oct :: pyfloat
  row_Nov :: pyfloat
  row_Dec :: pyfloat
  row_Year :: "pyfloat option"

text \<open>\<^verbatim>\<open>float(parts[i].replace(",", "."))\<close>.\<close>

definition month_value :: "string list \<Rightarrow> nat \<Rightarrow> py_error + pyfloat" where
  "month_value parts i = and_then (item parts i) (\<lambda>tok. py_float (comma_to_dot tok))"

text \<open>\<^verbatim>\<open>float(parts[15].replace(",", ".")) if parts[15] else None\<close>.\<close>

definition year_value :: "string list \<Rightarrow> py_error + pyfloat option" where
  "year_value parts =
     and_then (item parts 15) (\<lambda>tok.
       if tok \<noteq> [] then and_then (py_float (comma_to_dot tok)) (\<lambda>v. Inr (Some v))
       else Inr None)"

text \<open>The body of the \<^verbatim>\<open>try\<close> of \<^verbatim>\<open>parse_multi_annual_means\<close>, on the stripped
  parts of one line.\<close>

definition means_record :: "string list \<Rightarrow> py_error + means_row" where
  "means_record parts =
     and_then (item parts 0) (\<lambda>station_id.
     and_then (item parts 1) (\<lambda>ref_period.
     and_then (month_value parts 3) (\<lambda>jan_val.
     and_then (month_value parts 4) (\<lambda>feb_val.
     and_then (month_value parts 5) (\<lambda>mar_val.
     and_then (month_value parts 6) (\<lambda>apr_val.
     and_then (month_value parts 7) (\<lambda>may_val.
     and_then (month_value parts 8) (\<lambda>jun_val.
     and_then (month_value parts 9) (\<lambda>jul_val.
     and_then (month_value parts 10) (\<lambda>aug_val.
     and_then (month_value parts 11) (\<lambda>sep_val.
     and_then (month_value parts 12) (\<lambda>oct_val.
     and_then (month_value parts 13) (\<lambda>nov_val.
     and_then (month_value parts 14) (\<lambda>dec_val.
     and_then (year_value parts) (\<lambda>year_val.
       Inr \<lparr>row_station_id = station_id, row_reference_period = ref_period,
            row_Jan = jan_val, row_Feb = feb_val, row_Mar = mar_val, row_Apr = apr_val,
            row_May = may_val, row_Jun = jun_val, row_Jul = jul_val, row_Aug = aug_val,
            row_Sep = sep_val, row_Oct = oct_val, row_Nov = nov_val, row_Dec = dec_val,
            row_Year = year_val\<rparr>)))))))))))))))"

text \<open>One pass of the loop over the lines: the records the line appends. The handler
  \<^verbatim>\<open>except (IndexError, ValueError)\<close> catches everything the body can raise.\<close>

definition means_line :: "string \<Rightarrow> means_row list" where
  "means_line raw =
     (let line = str_strip raw
      in if line = [] \<or> str_startswith line ''Stations_id'' then []
         else (case means_record (map str_strip (str_split (CHR '';'') line)) of
                 Inl e \<Rightarrow> []
               | Inr r \<Rightarrow> [r]))"

definition parse_multi_annual_means :: "string \<Rightarrow> means_row list" where
  "parse_multi_annual_means content = concat (map means_line (str_splitlines content))"

subsection \<open>The ten-minute decoders\<close>

text \<open>\<^verbatim>\<open>float(tok) if tok != "-999" else None\<close>.\<close>

definition float_unless_missing :: "string \<Rightarrow> py_error + pyval" where
  "float_unless_missing tok =
     (if tok \<noteq> ''-999'' then and_then (py_float tok) (\<lambda>v. Inr (PyFloat v)) else Inr PyNone)"

text \<open>The body of the \<^verbatim>\<open>try\<close> of \<^verbatim>\<open>parse_10min_precip\<close> on one row of the reader:
  the records it appends.\<close>

definition precip_record :: "string list \<Rightarrow> py_error + dict list" where
  "precip_record row =
     and_then (item row 0) (\<lambda>c0.
     and_then (item row 1) (\<lambda>c1.
     and_then (item row 4) (\<lambda>c4.
     and_then (strptime (str_strip c1)) (\<lambda>dt.
     and_then (float_unless_missing (str_strip c4)) (\<lambda>precip_val.
       if precip_val = PyNone then Inr []
       else Inr [[(''station_id'', PyStr (str_strip c0)), (''time'', PyTime dt),
                  (''precip_10min'', precip_val)]])))))"

definition is_header_row :: "string list \<Rightarrow> bool" where
  "is_header_row row = (case row of [] \<Rightarrow> False | c0 # _ \<Rightarrow> str_startswith c0 ''STATIONS_ID'')"

definition precip_row :: "string list \<Rightarrow> dict list" where
  "precip_row row =
     (if row = [] \<or> is_header_row row then []
      else (case precip_record row of Inl e \<Rightarrow> [] | Inr out \<Rightarrow> out))"

text \<open>The body of the \<^verbatim>\<open>try\<close> of \<^verbatim>\<open>parse_10min_temp\<close> on one row.\<close>

definition temp_record :: "string list \<Rightarrow> py_error + dict list" where
  "temp_record row =
     and_then (item row 0) (\<lambda>c0.
     and_then (item row 1) (\<lambda>c1.
     and_then (item row 4) (\<lambda>c4.
     and_then (item row 6) (\<lambda>c6.
     and_then (strptime (str_strip c1)) (\<lambda>dt.
     and_then (float_unless_missing (str_strip c4)) (\<lambda>temp_val.
     and_then (float_unless_missing (str_strip c6)) (\<lambda>rh_val.
       if temp_val = PyNone \<and> rh_val = PyNone then Inr []
       else Inr [[(''station_id'', PyStr (str_strip c0)), (''time'', PyTime dt),
                  (''temperature_10min'', temp_val), (''humidity_10min'', rh_val)]])))))))"

definition temp_row :: "string list \<Rightarrow> dict list" where
  "temp_row row =
     (if row = [] \<or> is_header_row row then []
      else (case temp_record row of Inl e \<Rightarrow> [] | Inr out \<Rightarrow> out))"

text \<open>\<^verbatim>\<open>csv.reader(lines, delimiter=";")\<close> belongs to the standard library: the decoders
  take it as the parameter \<open>reader\<close>, from the lines to the rows it yields, or the
  \<^verbatim>\<open>csv.Error\<close> it raises (which no handler of the loader catches).\<close>

type_synonym csv_reader = "string list \<Rightarrow> py_error + string list list"

definition parse_10min_precip :: "csv_reader \<Rightarrow> string \<Rightarrow> py_error + dict list" where
  "parse_10min_precip reader csv_content =
     and_then (reader (str_splitlines csv_content)) (\<lambda>rows. Inr (concat (map precip_row rows)))"

definition parse_10min_temp :: "csv_reader \<Rightarrow> string \<Rightarrow> py_error + dict list" where
  "parse_10min_temp reader csv_content =
     and_then (reader (str_splitlines csv_content)) (\<lambda>rows. Inr (concat (map temp_row rows)))"

subsection \<open>The point builder\<close>

text \<open>The sink: the batches handed to \<^verbatim>\<open>write_api.write\<close>, oldest first. A write is
  taken to succeed.\<close>

type_synonym sink = "point list list"

type_synonym station_map = "(string \<times> string) list"

text \<open>\<^verbatim>\<open>station_map and station_id in station_map and station_map[station_id]\<close>: the name
  to tag with, when the condition holds.\<close>

definition station_name :: "station_map option \<Rightarrow> pyval \<Rightarrow> string option" where
  "station_name station_map station_id =
     (case station_map of
        None \<Rightarrow> None
      | Some m \<Rightarrow>
          (if m = [] then None
           else (case station_id of
                   PyStr sid \<Rightarrow>
                     (case map_of m sid of
                        None \<Rightarrow> None
                      | Some nm \<Rightarrow> if nm \<noteq> [] then Some nm else None)
                 | _ \<Rightarrow> None)))"

text \<open>One pass of the loop of \<^verbatim>\<open>write_points_to_influx\<close>: the point, and the entry as
  the two \<^verbatim>\<open>pop\<close> calls leave it.\<close>

definition build_point :: "string \<Rightarrow> station_map option \<Rightarrow> dict \<Rightarrow> point \<times> dict" where
  "build_point measurement station_map entry =
     (let (station_id, entry1) = dict_pop ''station_id'' entry;
          (tstamp, entry2) = dict_pop ''time'' entry1;
          p0 = Point measurement;
          p1 = (if truthy station_id
                then (let p = point_tag ''station_id'' station_id p0
                      in (case station_name station_map station_id of
                            None \<Rightarrow> p
                          | Some nm \<Rightarrow> point_tag ''station_name'' (PyStr nm) p))
                else p0);
          p2 = (if truthy tstamp then point_time tstamp p1 else p1);
          p3 = fold (\<lambda>(k, v) p. point_field k v p) entry2 p2
      in (p3, entry2))"

text \<open>The result is the record list as the call leaves it (the caller's list is
  mutated in place) and the sink.\<close>

definition write_points_to_influx ::
  "sink \<Rightarrow> dict list \<Rightarrow> string \<Rightarrow> station_map option \<Rightarrow> dict list \<times> sink" where
  "write_points_to_influx snk data_list measurement station_map =
     (let built = map (build_point measurement station_map) data_list;
          points = map fst built
      in (map snd built, if points \<noteq> [] then snk @ [points] else snk))"

subsection \<open>Remote resources\<close>

text \<open>
  What the loader reads from outside, as parameters: \<open>requests_get\<close> is
  \<^verbatim>\<open>requests.get(url, timeout=10)\<close>, which gives a response (its status code and its
  body) or raises the exception of a transport error; \<open>decode_utf8\<close> is
  \<^verbatim>\<open>bytes.decode("utf-8", errors="ignore")\<close>; \<open>anchor_hrefs\<close> gives, for an index
  page, \<^verbatim>\<open>link.get("href")\<close> of every anchor the HTML parser finds; \<open>zip_members\<close>
  opens an archive: it raises the exception of a broken archive or gives, for every
  member in the archive's order, the name and what opening, reading and decoding the
  member gives (its text, or the exception raised); \<open>csv_rows\<close> is \<^verbatim>\<open>csv.reader\<close>.
\<close>

record 'b response =
  status_code :: nat
  content :: 'b

record 'b env =
  requests_get :: "string \<Rightarrow> py_error + 'b response"
  decode_utf8 :: "'b \<Rightarrow> string"
  anchor_hrefs :: "string \<Rightarrow> string option list"
  zip_members :: "'b \<Rightarrow> py_error + (string \<times> (py_error + string)) list"
  csv_rows :: csv_reader

datatype data_type = Precipitation | Temperature

definition data_type_name :: "data_type \<Rightarrow> string" where
  "data_type_name t = (case t of Precipitation \<Rightarrow> ''precipitation'' | Temperature \<Rightarrow> ''temperature'')"

definition BASE_URL :: string where
  "BASE_URL = ''https://opendata.dwd.de/climate_environment/CDC/observations_germany/climate''"

definition PERIOD_STRINGS :: "string list" where
  "PERIOD_STRINGS = [''1961-1990'', ''1971-2000'', ''1981-2010'', ''1991-2020'']"

definition MULTI_ANNUAL_MEANS_URL :: string where
  "MULTI_ANNUAL_MEANS_URL = BASE_URL @ ''/multi_annual''"

text \<open>\<^verbatim>\<open>MULTI_ANNUAL_TEMPLATES[data_type].format(short_period=..., period=...)\<close>.\<close>

definition multi_annual_url :: "data_type \<Rightarrow> string \<Rightarrow> string \<Rightarrow> string" where
  "multi_annual_url t short_period period =
     MULTI_ANNUAL_MEANS_URL @ ''/mean_'' @ short_period
     @ (case t of Precipitation \<Rightarrow> ''/Niederschlag_'' | Temperature \<Rightarrow> ''/Temperatur_'')
     @ period @ ''.txt''"

definition TEN_MINUTE_DATA_URL :: "data_type \<Rightarrow> string" where
  "TEN_MINUTE_DATA_URL t =
     BASE_URL @ (case t of Precipitation \<Rightarrow> ''/10_minutes/precipitation''
                 | Temperature \<Rightarrow> ''/10_minutes/air_temperature'')"

definition HISTORICAL_URLS :: "data_type \<Rightarrow> string" where
  "HISTORICAL_URLS t = TEN_MINUTE_DATA_URL t @ ''/historical/''"

definition RECENT_URLS :: "data_type \<Rightarrow> string" where
  "RECENT_URLS t = TEN_MINUTE_DATA_URL t @ ''/recent/''"

definition NOW_URLS :: "data_type \<Rightarrow> string" where
  "NOW_URLS t = TEN_MINUTE_DATA_URL t @ ''/now/''"

text \<open>\<^verbatim>\<open>download_file\<close>: a transport error of \<^verbatim>\<open>requests.get\<close> is raised as it
  is; \<^verbatim>\<open>raise_for_status\<close> raises HTTPError for a status code from 400 to 599 and for
  no other, and the function logs that error and raises it again; otherwise the body is
  returned, whatever the status.\<close>

definition download_file :: "'b env \<Rightarrow> string \<Rightarrow> py_error + 'b" where
  "download_file e url =
     and_then (requests_get e url) (\<lambda>r.
       if 400 \<le> status_code r \<and> status_code r < 600 then Inl HTTPError
       else Inr (content r))"

text \<open>The records a call hands to \<^verbatim>\<open>logger.error\<close>, each as its message and the
  address it is about. They are kept apart from the sink.\<close>

type_synonym log_record = "string \<times> string"

definition download_file_errors :: "'b env \<Rightarrow> string \<Rightarrow> log_record list" where
  "download_file_errors e url =
     (case requests_get e url of
        Inl err \<Rightarrow> []
      | Inr r \<Rightarrow>
          if 400 \<le> status_code r \<and> status_code r < 600
          then [(''Error downloading %s: %s'', url)] else [])"

text \<open>The outcome of a step of the run: the exception that ended it, if any, and the
  sink as the step left it.\<close>

type_synonym outcome = "py_error option \<times> sink"

text \<open>A loop whose body works on the sink: it stops at the first exception.\<close>

fun for_each :: "('a \<Rightarrow> sink \<Rightarrow> outcome) \<Rightarrow> 'a list \<Rightarrow> sink \<Rightarrow> outcome" where
  "for_each body [] snk = (None, snk)"
| "for_each body (x # xs) snk =
     (case body x snk of
        (None, snk') \<Rightarrow> for_each body xs snk'
      | (Some e, snk') \<Rightarrow> (Some e, snk'))"

text \<open>The anchors' loop of \<^verbatim>\<open>list_dwd_files\<close>:
  \<^verbatim>\<open>if href and href.startswith(prefix) and href.endswith(suffix)\<close>.\<close>

definition matching_href :: "string \<Rightarrow> string \<Rightarrow> string option \<Rightarrow> string list" where
  "matching_href pre suf href =
     (case href of
        None \<Rightarrow> []
      | Some h \<Rightarrow> if h \<noteq> [] \<and> str_startswith h pre \<and> str_endswith h suf then [h] else [])"

definition list_dwd_files :: "'b env \<Rightarrow> string \<Rightarrow> string \<Rightarrow> string \<Rightarrow> py_error + string list" where
  "list_dwd_files e base_url pre suf =
     and_then (download_file e base_url) (\<lambda>page.
       Inr (concat (map (matching_href pre suf) (anchor_hrefs e (decode_utf8 e page)))))"

text \<open>One member of the archive, in \<^verbatim>\<open>fetch_and_write_zip\<close>.\<close>

definition write_member ::
  "'b env \<Rightarrow> data_type \<Rightarrow> station_map option \<Rightarrow> string \<times> (py_error + string) \<Rightarrow> sink
     \<Rightarrow> outcome" where
  "write_member e t station_map member snk =
     (case member of
        (filename, contents) \<Rightarrow>
          if str_endswith filename ''.txt''
          then (case contents of
                  Inl err \<Rightarrow> (Some err, snk)
                | Inr text \<Rightarrow>
                    (case (if t = Precipitation then parse_10min_precip (csv_rows e) text
                           else parse_10min_temp (csv_rows e) text) of
                       Inl err \<Rightarrow> (Some err, snk)
                     | Inr parsed \<Rightarrow>
                         (None, snd (write_points_to_influx snk parsed
                                       (if t = Precipitation then ''precip_10min''
                                        else ''temp_10min'')
                                       station_map))))
          else (None, snk))"

text \<open>\<^verbatim>\<open>fetch_and_write_zip\<close>: the handler around \<^verbatim>\<open>download_file\<close> catches every
  exception, logs it and returns. The archive is opened after the \<^verbatim>\<open>try\<close> statement,
  so what opening it or reading a member raises leaves the function, after the members
  before it have been written.\<close>

definition fetch_and_write_zip ::
  "'b env \<Rightarrow> sink \<Rightarrow> string \<Rightarrow> data_type \<Rightarrow> station_map option \<Rightarrow> outcome" where
  "fetch_and_write_zip e snk full_url t station_map =
     (case download_file e full_url of
        Inl err \<Rightarrow> (None, snk)
      | Inr zip_content \<Rightarrow>
          (case zip_members e zip_content of
             Inl err \<Rightarrow> (Some err, snk)
           | Inr members \<Rightarrow> for_each (write_member e t station_map) members snk))"

text \<open>What \<^verbatim>\<open>fetch_and_write_zip\<close> hands to \<^verbatim>\<open>logger.error\<close>: the record of
  \<^verbatim>\<open>download_file\<close>, then the one of its own handler.\<close>

definition fetch_and_write_zip_errors :: "'b env \<Rightarrow> string \<Rightarrow> log_record list" where
  "fetch_and_write_zip_errors e full_url =
     download_file_errors e full_url
     @ (case download_file e full_url of
          Inl err \<Rightarrow> [(''Could not download %s: %s'', full_url)]
        | Inr zip_content \<Rightarrow> [])"

subsection \<open>Multi-annual means\<close>

text \<open>\<^verbatim>\<open>if station_ids and station_id not in station_ids: continue\<close>.\<close>

definition skipped_station :: "string list option \<Rightarrow> string \<Rightarrow> bool" where
  "skipped_station station_ids station_id =
     (case station_ids of
        None \<Rightarrow> False
      | Some ids \<Rightarrow> ids \<noteq> [] \<and> station_id \<notin> set ids)"

definition month_values :: "means_row \<Rightarrow> (int \<times> pyfloat) list" where
  "month_values row =
     [(1, row_Jan row), (2, row_Feb row), (3, row_Mar row), (4, row_Apr row),
      (5, row_May row), (6, row_Jun row), (7, row_Jul row), (8, row_Aug row),
      (9, row_Sep row), (10, row_Oct row), (11, row_Nov row), (12, row_Dec row)]"

text \<open>
  The handler of the start year is written \<^verbatim>\<open>except ValueError | TypeError:\<close>. When
  the body has raised, the interpreter evaluates \<^verbatim>\<open>ValueError | TypeError\<close>: before
  Python 3.10 the operator itself raises TypeError; from 3.10 on the value is a union
  type, which is no exception class, and matching against it raises TypeError. Either
  way the exception that leaves the statement is TypeError, whatever was raised.
\<close>

definition except_union :: "py_error \<Rightarrow> py_error" where
  "except_union raised = TypeError"

text \<open>\<^verbatim>\<open>int(ref_period.split("-")[0])\<close> under that handler.\<close>

definition start_year_of :: "string \<Rightarrow> py_error + int" where
  "start_year_of ref_period =
     (case and_then (item (str_split (CHR ''-'') ref_period) 0) py_int of
        Inl raised \<Rightarrow> Inl (except_union raised)
      | Inr y \<Rightarrow> Inr y)"

text \<open>One pass of the inner loop over the months.\<close>

definition month_point ::
  "string \<Rightarrow> string \<Rightarrow> int \<Rightarrow> int \<times> pyfloat \<Rightarrow> py_error + dict list" where
  "month_point station_id ref_period start_year mv =
     (case mv of
        (month_num, val) \<Rightarrow>
          and_then (py_datetime start_year month_num 1 0 0) (\<lambda>synthetic_ts.
            Inr [[(''station_id'', PyStr station_id), (''time'', PyTime synthetic_ts),
                  (''reference_period'', PyStr ref_period), (''value'', PyFloat val)]]))"

text \<open>One pass of the loop over the rows: the point dictionaries it appends.\<close>

definition row_points :: "string list option \<Rightarrow> means_row \<Rightarrow> py_error + dict list" where
  "row_points station_ids row =
     (let station_id = row_station_id row
      in if skipped_station station_ids station_id then Inr []
         else (let ref_period = row_reference_period row
               in and_then (start_year_of ref_period) (\<lambda>start_year.
                    collect (month_point station_id ref_period start_year)
                      (month_values row))))"

text \<open>\<^verbatim>\<open>"-".join([year[2:] for year in period.split("-")])\<close>.\<close>

definition short_period_of :: "string \<Rightarrow> string" where
  "short_period_of period = str_join ''-'' (map (drop 2) (str_split (CHR ''-'') period))"

text \<open>One pass of the loop over the reference periods.\<close>

definition fetch_period ::
  "'b env \<Rightarrow> data_type \<Rightarrow> station_map option \<Rightarrow> string list option \<Rightarrow> string \<Rightarrow> sink
     \<Rightarrow> outcome" where
  "fetch_period e t station_map station_ids period snk =
     (case download_file e (multi_annual_url t (short_period_of period) period) of
        Inl err \<Rightarrow> (Some err, snk)
      | Inr content_bytes \<Rightarrow>
          (case collect (row_points station_ids)
                  (parse_multi_annual_means (decode_utf8 e content_bytes)) of
             Inl err \<Rightarrow> (Some err, snk)
           | Inr data_points \<Rightarrow>
               (None, snd (write_points_to_influx snk data_points
                             (''multi_annual_'' @ data_type_name t) station_map))))"

definition fetch_multi_annual_means ::
  "'b env \<Rightarrow> sink \<Rightarrow> data_type \<Rightarrow> station_map option \<Rightarrow> string list option \<Rightarrow> outcome" where
  "fetch_multi_annual_means e snk t station_map station_ids =
     for_each (fetch_period e t station_map station_ids) PERIOD_STRINGS snk"

subsection \<open>Ten-minute archives\<close>

text \<open>\<^verbatim>\<open>f"10minutenwerte_{'nieder' if data_type == 'precipitation' else 'TU'}_"\<close>.\<close>

definition type_prefix :: "data_type \<Rightarrow> string" where
  "type_prefix t =
     ''10minutenwerte_'' @ (if t = Precipitation then ''nieder'' else ''TU'') @ ''_''"

definition hist_suffix :: string where
  "hist_suffix = ''_hist.zip''"

text \<open>\<^verbatim>\<open>[fn for fn in all_filenames if fn.startswith(station_prefix)]\<close> with
  \<^verbatim>\<open>station_prefix = f"{prefix}{station_id.zfill(5)}_"\<close>.\<close>

definition station_files :: "string \<Rightarrow> string list \<Rightarrow> string \<Rightarrow> string list" where
  "station_files pre all_filenames station_id =
     (let padded_id = str_zfill 5 station_id;
          station_prefix = pre @ padded_id @ ''_''
      in filter (\<lambda>fn. str_startswith fn station_prefix) all_filenames)"

definition fetch_historical_10min_data ::
  "'b env \<Rightarrow> sink \<Rightarrow> string list \<Rightarrow> data_type \<Rightarrow> station_map option \<Rightarrow> outcome" where
  "fetch_historical_10min_data e snk station_ids t station_map =
     (let base_url = HISTORICAL_URLS t
      in case list_dwd_files e base_url (type_prefix t) hist_suffix of
           Inl err \<Rightarrow> (Some err, snk)
         | Inr all_filenames \<Rightarrow>
             for_each (\<lambda>station_id.
                 for_each (\<lambda>zipfile_name s.
                     fetch_and_write_zip e s (base_url @ zipfile_name) t station_map)
                   (station_files (type_prefix t) all_filenames station_id))
               station_ids snk)"

datatype period = Recent | Now

text \<open>\<^verbatim>\<open>f"10minutenwerte_{'nieder' if data_type=='precipitation' else 'TU'}_{station_id}{suffix}"\<close>.\<close>

definition recent_or_now_name :: "data_type \<Rightarrow> period \<Rightarrow> string \<Rightarrow> string" where
  "recent_or_now_name t per station_id =
     ''10minutenwerte_'' @ (if t = Precipitation then ''nieder'' else ''TU'') @ ''_''
     @ station_id @ (if per = Recent then ''_akt.zip'' else ''_now.zip'')"

definition fetch_recent_or_now_10min_data ::
  "'b env \<Rightarrow> sink \<Rightarrow> string list \<Rightarrow> data_type \<Rightarrow> period \<Rightarrow> station_map option \<Rightarrow> outcome" where
  "fetch_recent_or_now_10min_data e snk station_ids t per station_map =
     (let base_url = (if per = Recent then RECENT_URLS t else NOW_URLS t)
      in for_each (\<lambda>station_id s.
             fetch_and_write_zip e s (base_url @ recent_or_now_name t per station_id)
               t station_map)
           station_ids snk)"

subsection \<open>The run\<close>

datatype mode = Init | Tracking | Historical

text \<open>The \<^verbatim>\<open>stations\<close> entry of the configuration: a list of dictionaries (an id,
  and a name or none), a list of ids, or something that is no list.\<close>

datatype stations_config =
  StationDicts "(string \<times> string option) list"
  | StationIds "string list"
  | NoList

definition roster :: "stations_config \<Rightarrow> (station_map \<times> string list) option" where
  "roster cfg =
     (case cfg of
        StationDicts items \<Rightarrow>
          Some (fold (\<lambda>(sid, nm) m. AList.update sid (case nm of None \<Rightarrow> [] | Some n \<Rightarrow> n) m)
                  items [],
                map fst items)
      | StationIds ids \<Rightarrow> Some (fold (\<lambda>sid m. AList.update sid [] m) ids [], ids)
      | NoList \<Rightarrow> None)"

text \<open>Steps one after the other, until one raises.\<close>

definition in_turn :: "(sink \<Rightarrow> outcome) list \<Rightarrow> sink \<Rightarrow> outcome" where
  "in_turn steps snk = for_each (\<lambda>step. step) steps snk"

text \<open>\<^verbatim>\<open>main\<close>, from the parsed arguments and configuration on; the sink starts
  empty. In \<^verbatim>\<open>init\<close> mode the two calls of \<^verbatim>\<open>fetch_multi_annual_means\<close> pass no
  \<^verbatim>\<open>station_ids\<close>, so the parameter has its default \<^verbatim>\<open>None\<close>.\<close>

definition main :: "'b env \<Rightarrow> mode \<Rightarrow> stations_config \<Rightarrow> outcome" where
  "main e md cfg =
     (case roster cfg of
        None \<Rightarrow> (None, [])
      | Some (station_map, station_ids) \<Rightarrow>
          (case md of
             Init \<Rightarrow>
               in_turn
                 [\<lambda>s. fetch_multi_annual_means e s Precipitation (Some station_map) None,
                  \<lambda>s. fetch_multi_annual_means e s Temperature (Some station_map) None,
                  \<lambda>s. fetch_recent_or_now_10min_data e s station_ids Precipitation Recent
                         (Some station_map),
                  \<lambda>s. fetch_recent_or_now_10min_data e s station_ids Temperature Recent
                         (Some station_map)] []
           | Historical \<Rightarrow>
               in_turn
                 [\<lambda>s. fetch_historical_10min_data e s station_ids Precipitation
                         (Some station_map),
                  \<lambda>s. fetch_historical_10min_data e s station_ids Temperature
                         (Some station_map)] []
           | Tracking \<Rightarrow>
               in_turn
                 [\<lambda>s. fetch_recent_or_now_10min_data e s station_ids Precipitation Now
                         (Some station_map),
                  \<lambda>s. fetch_recent_or_now_10min_data e s station_ids Temperature Now
                         (Some station_map)] []))"

subsection \<open>Well-formed rows and usable records\<close>

definition parses :: "py_error + 'a \<Rightarrow> bool" where
  "parses r = (case r of Inl e \<Rightarrow> False | Inr x \<Rightarrow> True)"

text \<open>A row of the temperature file that the decoder reads without an exception: no
  header, the seven columns it indexes, a time stamp that parses, and in columns 4 and 6
  the marker \<^verbatim>\<open>-999\<close> or a number.\<close>

definition well_formed_temp_row :: "string list \<Rightarrow> bool" where
  "well_formed_temp_row row =
     (7 \<le> length row \<and> \<not> is_header_row row
      \<and> parses (strptime (str_strip (row ! 1)))
      \<and> parses (float_unless_missing (str_strip (row ! 4)))
      \<and> parses (float_unless_missing (str_strip (row ! 6))))"


subsection \<open>Example inputs\<close>

text \<open>A reader for files without quotes: every line split at the semicolons, an empty line
  giving the empty row.\<close>

definition plain_reader :: csv_reader where
  "plain_reader ls = Inr (map (\<lambda>l. if l = [] then [] else str_split (CHR '';'') l) ls)"

text \<open>A server whose index page of the historical precipitation archives holds the
  two archives of station 00091, a link to the parent directory and an anchor without
  \<^verbatim>\<open>href\<close>, and which answers every other address with the status 404.\<close>

definition listing_env :: "string env" where
  "listing_env =
     \<lparr>requests_get = (\<lambda>url.
        if url = HISTORICAL_URLS Precipitation then Inr \<lparr>status_code = 200, content = []\<rparr>
        else Inr \<lparr>status_code = 404, content = []\<rparr>),
      decode_utf8 = (\<lambda>b. b),
      anchor_hrefs = (\<lambda>html.
        [Some ''../'', None,
         Some ''10minutenwerte_nieder_00091_19950101_20201231_hist.zip'',
         Some ''10minutenwerte_TU_00091_19950101_20201231_hist.zip'']),
      zip_members = (\<lambda>b. Inl BadZipFile),
      csv_rows = (\<lambda>ls. Inr [])\<rparr>"

text \<open>A temperature file: the header, a row with both values missing, a row with the
  humidity missing.\<close>

definition temp_file :: string where
  "temp_file =
     ''STATIONS_ID;MESS_DATUM;QN;PP_10;TT_10;TM5_10;RF_10;TD_10;eor\<newline>91;202001010000;3;-999;-999;-999;-999;-999;eor\<newline>91;202001010010;3;-999; 5.5;-999;-999;-999;eor\<newline>''"

text \<open>The record the temperature decoder makes of the last row of that file.\<close>

definition temp_entry :: dict where
  "temp_entry =
     [(''station_id'', PyStr ''91''),
      (''time'', PyTime \<lparr>year = 2020, month = 1, day = 1, hour = 0, minute = 10\<rparr>),
      (''temperature_10min'', PyFloat (Finite (11 / 2))),
      (''humidity_10min'', PyNone)]"

text \<open>A multi-annual means file: the header and one record, of station 00091, whose
  January value is \<^verbatim>\<open>42,5\<close> and whose December value is \<^verbatim>\<open>-999\<close>.\<close>

definition means_file :: string where
  "means_file =
     ''Stations_id;Bezugszeitraum;Datenquelle;Jan.;Feb.;Mrz.;Apr.;Mai;Jun.;Jul.;Aug.;Sep.;Okt.;Nov.;Dez.;Jahr;\<newline>00091;1961-1990;DWD;42,5;35,1;40,2;44,8;60,3;71,7;66,4;68,9;50,6;47,2;52,0;-999;579,7;\<newline>''"

definition means_parts :: "string list" where
  "means_parts =
     [''00091'', ''1961-1990'', ''DWD'', ''42,5'', ''35,1'', ''40,2'', ''44,8'', ''60,3'',
      ''71,7'', ''66,4'', ''68,9'', ''50,6'', ''47,2'', ''52,0'', ''-999'', ''579,7'', '''']"

definition means_row_91 :: means_row where
  "means_row_91 =
     \<lparr>row_station_id = ''00091'', row_reference_period = ''1961-1990'',
      row_Jan = Finite (85 / 2), row_Feb = Finite (351 / 10), row_Mar = Finite (201 / 5),
      row_Apr = Finite (224 / 5), row_May = Finite (603 / 10), row_Jun = Finite (717 / 10),
      row_Jul = Finite (332 / 5), row_Aug = Finite (689 / 10), row_Sep = Finite (253 / 5),
      row_Oct = Finite (236 / 5), row_Nov = Finite 52, row_Dec = Finite (- 999),
      row_Year = Some (Finite (5797 / 10))\<rparr>"

text \<open>The same file with, before its record, a record whose reference period is
  \<^verbatim>\<open>abcd-1990\<close>.\<close>

definition bad_period_file :: string where
  "bad_period_file =
     ''Stations_id;Bezugszeitraum;Datenquelle;Jan.;Feb.;Mrz.;Apr.;Mai;Jun.;Jul.;Aug.;Sep.;Okt.;Nov.;Dez.;Jahr;\<newline>00091;abcd-1990;DWD;42,5;35,1;40,2;44,8;60,3;71,7;66,4;68,9;50,6;47,2;52,0;61,3;640,0;\<newline>00091;1961-1990;DWD;42,5;35,1;40,2;44,8;60,3;71,7;66,4;68,9;50,6;47,2;52,0;-999;579,7;\<newline>''"

text \<open>A server that has a file for every multi-annual address and nothing else.\<close>

definition means_env :: "string \<Rightarrow> string env" where
  "means_env file =
     \<lparr>requests_get = (\<lambda>url.
        if str_startswith url MULTI_ANNUAL_MEANS_URL
        then Inr \<lparr>status_code = 200, content = file\<rparr>
        else Inl RequestException),
      decode_utf8 = (\<lambda>b. b),
      anchor_hrefs = (\<lambda>html. []),
      zip_members = (\<lambda>b. Inl BadZipFile),
      csv_rows = plain_reader\<rparr>"

text \<open>The twelve point dictionaries of that record.\<close>

definition means_points_91 :: "dict list" where
  "means_points_91 = map (\<lambda>(month_num, val).
                  [(''station_id'', PyStr (row_station_id means_row_91)),
                   (''time'', PyTime \<lparr>year = 1961, month = month_num, day = 1, hour = 0, minute = 0\<rparr>),
                   (''reference_period'', PyStr (row_reference_period means_row_91)),
                   (''value'', PyFloat val)])
                (month_values means_row_91)"


text \<open>
  A server with failures of every kind. The index page of the historical precipitation
  archives cannot be reached (a transport error); every multi-annual file is answered
  with the status 503; the recent and the historical temperature archive of station 00091
  are answered with 404; the now temperature archive of station 00091 is answered with
  the status 301 and a body that is no archive. Every other address is answered with 200:
  the index pages list the historical temperature archives of the stations 00091 and
  00092, and every archive holds the temperature file above.
\<close>

definition flaky_env :: "string env" where
  "flaky_env =
     \<lparr>requests_get = (\<lambda>url.
        if url = HISTORICAL_URLS Precipitation then Inl RequestException
        else if str_startswith url MULTI_ANNUAL_MEANS_URL
        then Inr \<lparr>status_code = 503, content = []\<rparr>
        else if url = RECENT_URLS Temperature @ ''10minutenwerte_TU_00091_akt.zip''
                \<or> url = HISTORICAL_URLS Temperature
                          @ ''10minutenwerte_TU_00091_19950101_20201231_hist.zip''
        then Inr \<lparr>status_code = 404, content = []\<rparr>
        else if url = NOW_URLS Temperature @ ''10minutenwerte_TU_00091_now.zip''
        then Inr \<lparr>status_code = 301, content = ''moved''\<rparr>
        else Inr \<lparr>status_code = 200, content = url\<rparr>),
      decode_utf8 = (\<lambda>b. b),
      anchor_hrefs = (\<lambda>html.
        [Some ''10minutenwerte_TU_00091_19950101_20201231_hist.zip'',
         Some ''10minutenwerte_TU_00092_19930428_20201231_hist.zip'']),
      zip_members = (\<lambda>b.
        if b = ''moved'' then Inl BadZipFile
        else Inr [(''produkt_zehn_min_tu_00092.txt'', Inr temp_file)]),
      csv_rows = plain_reader\<rparr>"

section \<open>Properties\<close>

subsection \<open>Evaluation and loops\<close>

text \<open>Unfolding sets for evaluating the string and number functions on literals.\<close>

lemmas str_eval = str_strip_def isspace_def code_point_def comma_to_dot_def str_startswith_def
  str_endswith_def str_splitlines_def is_linebreak_def str_zfill_def
lemmas num_eval = py_float_def floatnumber_def digits_value_def digits_of_def is_digit_def
  digit_val_def scale10_def is_exp_mark_def to_lower_def exponent_of_def py_int_def
  number_strip_def number_space_def float_of_decimal_def

lemmas time_eval = strptime_def strptime_matches_def re_Y_def re_m_def re_d_def re_H_def re_M_def
  two_chars_def one_char_def space_digit_def in_range_def py_datetime_def c_int_range_def
  days_in_month_def is_leap_def

lemmas url_eval = HISTORICAL_URLS_def RECENT_URLS_def NOW_URLS_def TEN_MINUTE_DATA_URL_def
  MULTI_ANNUAL_MEANS_URL_def BASE_URL_def recent_or_now_name_def multi_annual_url_def

text \<open>The loop over the sink: appended lists, a body that changes nothing, nested loops.\<close>

lemma for_each_append:
  "for_each body (xs @ ys) snk =
     (case for_each body xs snk of
        (None, snk') \<Rightarrow> for_each body ys snk'
      | (Some e, snk') \<Rightarrow> (Some e, snk'))"
  by (induction xs arbitrary: snk) (auto split: prod.splits option.splits)

lemma for_each_skip:
  assumes "\<And>s. body x s = (None, s)"
  shows "for_each body (xs @ x # ys) snk = for_each body (xs @ ys) snk"
  by (simp add: for_each_append assms split: prod.splits option.splits)

lemma for_each_concat:
  "for_each (\<lambda>x. for_each body (g x)) xs snk = for_each body (concat (map g xs)) snk"
  by (induction xs arbitrary: snk) (auto simp: for_each_append split: prod.splits option.splits)

lemma failed_zip_is_skipped:
  "download_file e full_url = Inl err \<Longrightarrow> fetch_and_write_zip e snk full_url t sm = (None, snk)"
  by (simp add: fetch_and_write_zip_def)

lemma fetch_historical_flat:
  assumes "list_dwd_files e (HISTORICAL_URLS t) (type_prefix t) hist_suffix = Inr all_filenames"
  shows "fetch_historical_10min_data e snk station_ids t sm =
           for_each (\<lambda>zipfile_name s.
               fetch_and_write_zip e s (HISTORICAL_URLS t @ zipfile_name) t sm)
             (concat (map (station_files (type_prefix t) all_filenames) station_ids)) snk"
  by (simp add: fetch_historical_10min_data_def Let_def assms for_each_concat)

subsection \<open>Historical mode: which archives are selected\<close>

lemma type_prefix_nonempty: "type_prefix t \<noteq> []"
  by (simp add: type_prefix_def)

lemma set_list_dwd_files:
  assumes "download_file e base_url = Inr page"
  shows "\<exists>fs. list_dwd_files e base_url pre suf = Inr fs \<and>
           set fs = {h. Some h \<in> set (anchor_hrefs e (decode_utf8 e page)) \<and> h \<noteq> []
                        \<and> prefix pre h \<and> suffix suf h}"
  using assms
  by (auto simp: list_dwd_files_def and_then_def matching_href_def str_startswith_def
      str_endswith_def split: option.splits if_splits)

text \<open>
  Claim C6. In historical mode, for every station of the roster and every name of the
  listing, the name is selected if and only if it starts with the type prefix
  (\<^verbatim>\<open>10minutenwerte_nieder_\<close> for precipitation, \<^verbatim>\<open>10minutenwerte_TU_\<close> for
  temperature), then the station id filled with zeros to five characters, then an
  underscore, and ends with \<^verbatim>\<open>_hist.zip\<close>. The listing is the anchors of the index
  page. \<^verbatim>\<open>fetch_historical_10min_data\<close> fetches, station by station in the roster's
  order, exactly the names selected for the station, each below the historical address.
\<close>

theorem historical_selection:
  assumes "download_file e (HISTORICAL_URLS t) = Inr page"
  shows "type_prefix Precipitation = ''10minutenwerte_nieder_'' \<and>
         type_prefix Temperature = ''10minutenwerte_TU_'' \<and>
         (\<exists>all_filenames.
           list_dwd_files e (HISTORICAL_URLS t) (type_prefix t) hist_suffix = Inr all_filenames \<and>
           fetch_historical_10min_data e snk station_ids t sm =
             for_each (\<lambda>zipfile_name s.
                 fetch_and_write_zip e s (HISTORICAL_URLS t @ zipfile_name) t sm)
               (concat (map (station_files (type_prefix t) all_filenames) station_ids)) snk \<and>
           (\<forall>station_id fn.
              fn \<in> set (station_files (type_prefix t) all_filenames station_id) \<longleftrightarrow>
              Some fn \<in> set (anchor_hrefs e (decode_utf8 e page)) \<and>
              str_startswith fn (type_prefix t @ str_zfill 5 station_id @ ''_'') \<and>
              str_endswith fn ''_hist.zip''))"
proof -
  from set_list_dwd_files [OF assms, of "type_prefix t" hist_suffix]
  obtain fs where fs: "list_dwd_files e (HISTORICAL_URLS t) (type_prefix t) hist_suffix = Inr fs"
    and mem: "set fs = {h. Some h \<in> set (anchor_hrefs e (decode_utf8 e page)) \<and> h \<noteq> []
                        \<and> prefix (type_prefix t) h \<and> suffix hist_suffix h}"
    by blast
  have sel: "fn \<in> set (station_files (type_prefix t) fs station_id) \<longleftrightarrow>
          Some fn \<in> set (anchor_hrefs e (decode_utf8 e page)) \<and>
          str_startswith fn (type_prefix t @ str_zfill 5 station_id @ ''_'') \<and>
          str_endswith fn ''_hist.zip''" for fn station_id
  proof -
    have "prefix (type_prefix t) fn \<and> fn \<noteq> []"
      if "prefix (type_prefix t @ str_zfill 5 station_id @ ''_'') fn"
      using that type_prefix_nonempty [of t] by (auto simp: prefix_def)
    then show ?thesis
      by (auto simp: station_files_def mem str_startswith_def str_endswith_def hist_suffix_def)
  qed
  have run: "fetch_historical_10min_data e snk station_ids t sm =
             for_each (\<lambda>zipfile_name s.
                 fetch_and_write_zip e s (HISTORICAL_URLS t @ zipfile_name) t sm)
               (concat (map (station_files (type_prefix t) fs) station_ids)) snk"
    by (rule fetch_historical_flat [OF fs])
  have tp: "type_prefix Precipitation = ''10minutenwerte_nieder_''"
    "type_prefix Temperature = ''10minutenwerte_TU_''"
    by (simp_all add: type_prefix_def)
  from fs run sel tp show ?thesis by blast
qed

text \<open>The spec's example: station \<^verbatim>\<open>91\<close>, precipitation.\<close>

theorem historical_selection_witness:
  "download_file listing_env (HISTORICAL_URLS Precipitation) = Inr [] \<and>
   (\<exists>all_filenames.
      list_dwd_files listing_env (HISTORICAL_URLS Precipitation) (type_prefix Precipitation)
        hist_suffix = Inr all_filenames \<and>
      fetch_historical_10min_data listing_env [] [''91''] Precipitation None =
        for_each (\<lambda>zipfile_name s.
            fetch_and_write_zip listing_env s (HISTORICAL_URLS Precipitation @ zipfile_name)
              Precipitation None)
          (concat (map (station_files (type_prefix Precipitation) all_filenames) [''91''])) [] \<and>
      ''10minutenwerte_nieder_00091_19950101_20201231_hist.zip''
        \<in> set (station_files (type_prefix Precipitation) all_filenames ''91'') \<and>
      ''10minutenwerte_TU_00091_19950101_20201231_hist.zip''
        \<notin> set (station_files (type_prefix Precipitation) all_filenames ''91''))"
proof -
  have d: "download_file listing_env (HISTORICAL_URLS Precipitation) = Inr []"
    by (simp add: download_file_def listing_env_def and_then_def)
  have a: "str_startswith ''10minutenwerte_nieder_00091_19950101_20201231_hist.zip''
             (type_prefix Precipitation @ str_zfill 5 ''91'' @ ''_'')"
    by (simp add: str_startswith_def type_prefix_def str_zfill_def numeral_eq_Suc)
  have b: "str_endswith ''10minutenwerte_nieder_00091_19950101_20201231_hist.zip'' ''_hist.zip''"
    by (simp add: str_endswith_def suffix_to_prefix)
  have c: "\<not> str_startswith ''10minutenwerte_TU_00091_19950101_20201231_hist.zip''
             (type_prefix Precipitation @ str_zfill 5 ''91'' @ ''_'')"
    by (simp add: str_startswith_def type_prefix_def str_zfill_def)
  have h: "Some ''10minutenwerte_nieder_00091_19950101_20201231_hist.zip''
             \<in> set (anchor_hrefs listing_env (decode_utf8 listing_env []))"
    by (simp add: listing_env_def)
  from historical_selection [OF d, of "[]" "[''91'']" None]
  obtain all_filenames where
    l: "list_dwd_files listing_env (HISTORICAL_URLS Precipitation) (type_prefix Precipitation)
          hist_suffix = Inr all_filenames"
    and r: "fetch_historical_10min_data listing_env [] [''91''] Precipitation None =
        for_each (\<lambda>zipfile_name s.
            fetch_and_write_zip listing_env s (HISTORICAL_URLS Precipitation @ zipfile_name)
              Precipitation None)
          (concat (map (station_files (type_prefix Precipitation) all_filenames) [''91''])) []"
    and s: "\<And>station_id fn.
        fn \<in> set (station_files (type_prefix Precipitation) all_filenames station_id) \<longleftrightarrow>
        Some fn \<in> set (anchor_hrefs listing_env (decode_utf8 listing_env [])) \<and>
        str_startswith fn (type_prefix Precipitation @ str_zfill 5 station_id @ ''_'') \<and>
        str_endswith fn ''_hist.zip''"
    by blast
  from s [of _ "''91''"] a b c h
  have "''10minutenwerte_nieder_00091_19950101_20201231_hist.zip''
        \<in> set (station_files (type_prefix Precipitation) all_filenames ''91'')"
    and "''10minutenwerte_TU_00091_19950101_20201231_hist.zip''
        \<notin> set (station_files (type_prefix Precipitation) all_filenames ''91'')"
    by blast+
  with d l r show ?thesis by blast
qed

subsection \<open>Station ids in archive names\<close>








subsection \<open>The temperature decoder drops a row only when both values are missing\<close>

lemma temp_file_rows:
  "plain_reader (str_splitlines temp_file) =
     Inr [[''STATIONS_ID'', ''MESS_DATUM'', ''QN'', ''PP_10'', ''TT_10'', ''TM5_10'', ''RF_10'',
           ''TD_10'', ''eor''],
          [''91'', ''202001010000'', ''3'', ''-999'', ''-999'', ''-999'', ''-999'', ''-999'', ''eor''],
          [''91'', ''202001010010'', ''3'', ''-999'', '' 5.5'', ''-999'', ''-999'', ''-999'', ''eor'']]"
  by (simp add: temp_file_def plain_reader_def str_eval)

lemma strptime_example:
  "strptime ''202001010010'' = Inr \<lparr>year = 2020, month = 1, day = 1, hour = 0, minute = 10\<rparr>"
  "strptime ''202001010000'' = Inr \<lparr>year = 2020, month = 1, day = 1, hour = 0, minute = 0\<rparr>"
  by (simp_all add: time_eval str_eval num_eval)

lemma temp_rows_example:
  "temp_row [''STATIONS_ID'', ''MESS_DATUM'', ''QN'', ''PP_10'', ''TT_10'', ''TM5_10'', ''RF_10'',
           ''TD_10'', ''eor''] = []"
  "temp_row [''91'', ''202001010000'', ''3'', ''-999'', ''-999'', ''-999'', ''-999'', ''-999'', ''eor''] = []"
  "temp_row [''91'', ''202001010010'', ''3'', ''-999'', '' 5.5'', ''-999'', ''-999'', ''-999'', ''eor'']
     = [temp_entry]"
  by (simp_all add: temp_row_def is_header_row_def temp_record_def and_then_def item_def
      float_unless_missing_def strptime_example temp_entry_def str_eval num_eval)

lemma parse_temp_file: "parse_10min_temp plain_reader temp_file = Inr [temp_entry]"
  by (simp add: parse_10min_temp_def and_then_def temp_file_rows temp_rows_example)


lemma parses_Inr: "parses r \<longleftrightarrow> (\<exists>x. r = Inr x)"
  by (cases r) (simp_all add: parses_def)

lemma float_unless_missing_cases:
  "parses (float_unless_missing tok) \<Longrightarrow>
     (tok = ''-999'' \<and> float_unless_missing tok = Inr PyNone)
     \<or> (tok \<noteq> ''-999'' \<and> (\<exists>v. py_float tok = Inr v \<and> float_unless_missing tok = Inr (PyFloat v)))"
  by (auto simp: float_unless_missing_def and_then_def parses_def split: sum.splits if_splits)

lemma temp_record_well_formed:
  assumes "well_formed_temp_row row"
  shows "\<exists>dt tv hv.
           strptime (str_strip (row ! 1)) = Inr dt \<and>
           float_unless_missing (str_strip (row ! 4)) = Inr tv \<and>
           float_unless_missing (str_strip (row ! 6)) = Inr hv \<and>
           temp_row row =
             (if tv = PyNone \<and> hv = PyNone then []
              else [[(''station_id'', PyStr (str_strip (row ! 0))), (''time'', PyTime dt),
                     (''temperature_10min'', tv), (''humidity_10min'', hv)]])"
proof -
  from assms obtain dt tv hv where
    p: "strptime (str_strip (row ! 1)) = Inr dt"
       "float_unless_missing (str_strip (row ! 4)) = Inr tv"
       "float_unless_missing (str_strip (row ! 6)) = Inr hv"
    by (auto simp: well_formed_temp_row_def parses_Inr)
  from assms have l: "7 \<le> length row" "\<not> is_header_row row" "row \<noteq> []"
    by (auto simp: well_formed_temp_row_def)
  have "temp_record row =
      (if tv = PyNone \<and> hv = PyNone then Inr []
       else Inr [[(''station_id'', PyStr (str_strip (row ! 0))), (''time'', PyTime dt),
                  (''temperature_10min'', tv), (''humidity_10min'', hv)]])"
    using l p by (simp add: temp_record_def and_then_def item_def)
  with l p show ?thesis
    by (auto simp: temp_row_def)
qed

lemma parse_10min_temp_rows:
  "reader (str_splitlines csv_content) = Inr rows \<Longrightarrow>
   parse_10min_temp reader csv_content = Inr (concat (map temp_row rows))"
  by (simp add: parse_10min_temp_def and_then_def)

text \<open>
  Claim C7. In the ten-minute temperature decoder, a well-formed row adds nothing to the
  output if and only if both the temperature token (column 4, \<^verbatim>\<open>TT_10\<close>) and the
  humidity token (column 6, \<^verbatim>\<open>RF_10\<close>) are the marker \<^verbatim>\<open>-999\<close>; a row where exactly
  one of them is the marker adds exactly one record, with the other value present. The
  output of the decoder is the rows' contributions in order.
\<close>

theorem temp_row_dropped_iff_both_missing:
  assumes "reader (str_splitlines csv_content) = Inr (before @ row # after)"
    and "well_formed_temp_row row"
  shows "parse_10min_temp reader csv_content =
           Inr (concat (map temp_row before) @ temp_row row @ concat (map temp_row after))
         \<and> (temp_row row = [] \<longleftrightarrow>
            str_strip (row ! 4) = ''-999'' \<and> str_strip (row ! 6) = ''-999'')
         \<and> (str_strip (row ! 4) \<noteq> ''-999'' \<and> str_strip (row ! 6) = ''-999'' \<longrightarrow>
              (\<exists>dt v. py_float (str_strip (row ! 4)) = Inr v \<and>
                 temp_row row =
                   [[(''station_id'', PyStr (str_strip (row ! 0))), (''time'', PyTime dt),
                     (''temperature_10min'', PyFloat v), (''humidity_10min'', PyNone)]]))
         \<and> (str_strip (row ! 4) = ''-999'' \<and> str_strip (row ! 6) \<noteq> ''-999'' \<longrightarrow>
              (\<exists>dt v. py_float (str_strip (row ! 6)) = Inr v \<and>
                 temp_row row =
                   [[(''station_id'', PyStr (str_strip (row ! 0))), (''time'', PyTime dt),
                     (''temperature_10min'', PyNone), (''humidity_10min'', PyFloat v)]]))"
proof -
  from temp_record_well_formed [OF assms(2)] obtain dt tv hv where
    p: "float_unless_missing (str_strip (row ! 4)) = Inr tv"
       "float_unless_missing (str_strip (row ! 6)) = Inr hv"
       "temp_row row =
             (if tv = PyNone \<and> hv = PyNone then []
              else [[(''station_id'', PyStr (str_strip (row ! 0))), (''time'', PyTime dt),
                     (''temperature_10min'', tv), (''humidity_10min'', hv)]])"
    by blast
  from assms have w: "parses (float_unless_missing (str_strip (row ! 4)))"
      "parses (float_unless_missing (str_strip (row ! 6)))"
    by (auto simp: well_formed_temp_row_def)
  have "parse_10min_temp reader csv_content =
           Inr (concat (map temp_row before) @ temp_row row @ concat (map temp_row after))"
    using parse_10min_temp_rows [of reader csv_content, OF assms(1)] by simp
  with float_unless_missing_cases [OF w(1)] float_unless_missing_cases [OF w(2)] p
  show ?thesis by auto
qed


text \<open>The spec's example: both values missing, then only the humidity missing.\<close>

theorem temp_row_dropped_iff_both_missing_witness:
  "plain_reader (str_splitlines temp_file) =
     Inr ([[''STATIONS_ID'', ''MESS_DATUM'', ''QN'', ''PP_10'', ''TT_10'', ''TM5_10'', ''RF_10'',
            ''TD_10'', ''eor''],
           [''91'', ''202001010000'', ''3'', ''-999'', ''-999'', ''-999'', ''-999'', ''-999'', ''eor'']]
          @ [''91'', ''202001010010'', ''3'', ''-999'', '' 5.5'', ''-999'', ''-999'', ''-999'', ''eor'']
          # [])
   \<and> well_formed_temp_row
        [''91'', ''202001010000'', ''3'', ''-999'', ''-999'', ''-999'', ''-999'', ''-999'', ''eor'']
   \<and> well_formed_temp_row
        [''91'', ''202001010010'', ''3'', ''-999'', '' 5.5'', ''-999'', ''-999'', ''-999'', ''eor'']
   \<and> temp_row
        [''91'', ''202001010000'', ''3'', ''-999'', ''-999'', ''-999'', ''-999'', ''-999'', ''eor''] = []
   \<and> parse_10min_temp plain_reader temp_file =
        Inr [[(''station_id'', PyStr ''91''),
              (''time'', PyTime \<lparr>year = 2020, month = 1, day = 1, hour = 0, minute = 10\<rparr>),
              (''temperature_10min'', PyFloat (Finite (11 / 2))),
              (''humidity_10min'', PyNone)]]"
proof -
  let ?h = "[''STATIONS_ID'', ''MESS_DATUM'', ''QN'', ''PP_10'', ''TT_10'', ''TM5_10'', ''RF_10'',
            ''TD_10'', ''eor'']"
  let ?r1 = "[''91'', ''202001010000'', ''3'', ''-999'', ''-999'', ''-999'', ''-999'', ''-999'', ''eor'']"
  let ?r2 = "[''91'', ''202001010010'', ''3'', ''-999'', '' 5.5'', ''-999'', ''-999'', ''-999'', ''eor'']"
  have rd: "plain_reader (str_splitlines temp_file) = Inr ([?h, ?r1] @ ?r2 # [])"
    by (simp add: temp_file_rows)
  have rd1: "plain_reader (str_splitlines temp_file) = Inr ([?h] @ ?r1 # [?r2])"
    by (simp add: temp_file_rows)
  have w1: "well_formed_temp_row ?r1"
    by (simp add: well_formed_temp_row_def is_header_row_def parses_def strptime_example
        float_unless_missing_def str_eval)
  have w2: "well_formed_temp_row ?r2"
    by (simp add: well_formed_temp_row_def is_header_row_def parses_def strptime_example
        float_unless_missing_def and_then_def str_eval num_eval)
  have s: "str_strip (?r1 ! 4) = ''-999''" "str_strip (?r1 ! 6) = ''-999''"
    "str_strip (?r2 ! 4) \<noteq> ''-999''" "str_strip (?r2 ! 6) = ''-999''"
    "str_strip (?r2 ! 0) = ''91''"
    by (simp_all add: str_eval)
  have f: "py_float (str_strip (?r2 ! 4)) = Inr (Finite (11 / 2))"
    by (simp add: str_eval num_eval)
  have t: "strptime (str_strip (?r2 ! 1)) =
             Inr \<lparr>year = 2020, month = 1, day = 1, hour = 0, minute = 10\<rparr>"
    by (simp add: str_eval strptime_example)
  have r1: "temp_row ?r1 = []"
    using temp_row_dropped_iff_both_missing
        [where reader = plain_reader and csv_content = temp_file, OF rd1 w1] s
    by blast
  from temp_row_dropped_iff_both_missing
      [where reader = plain_reader and csv_content = temp_file, OF rd w2] s f
  obtain dt where r2: "temp_row ?r2 =
      [[(''station_id'', PyStr ''91''), (''time'', PyTime dt),
        (''temperature_10min'', PyFloat (Finite (11 / 2))), (''humidity_10min'', PyNone)]]"
    and out: "parse_10min_temp plain_reader temp_file =
           Inr (concat (map temp_row [?h, ?r1]) @ temp_row ?r2 @ concat (map temp_row []))"
    by auto
  from temp_record_well_formed [OF w2] t r2
  have "dt = \<lparr>year = 2020, month = 1, day = 1, hour = 0, minute = 10\<rparr>"
    by (auto split: if_splits)
  with out r2 r1 temp_rows_example(1) rd w1 w2 show ?thesis by simp
qed

subsection \<open>The point builder\<close>

lemma p_fields_point_tag [simp]: "p_fields (point_tag k v p) = p_fields p"
  by (simp add: point_tag_def)

lemma p_fields_point_time [simp]: "p_fields (point_time t p) = p_fields p"
  by (simp add: point_time_def)

lemma update_fresh: "k \<notin> fst ` set xs \<Longrightarrow> AList.update k v xs = xs @ [(k, v)]"
  by (induction xs) auto

lemma fold_point_field:
  assumes "distinct (map fst d)" "fst ` set d \<inter> fst ` set (p_fields p) = {}"
  shows "p_fields (fold (\<lambda>(k, v) p. point_field k v p) d p)
           = p_fields p @ filter (\<lambda>(k, v). v \<noteq> PyNone) d"
  using assms
proof (induction d arbitrary: p)
  case Nil
  then show ?case by simp
next
  case (Cons kv d)
  obtain k v where kv: "kv = (k, v)" by (cases kv)
  have fresh: "k \<notin> fst ` set (p_fields p)"
    using Cons.prems(2) kv by auto
  have fs: "fst ` set (p_fields (point_field k v p)) \<subseteq> insert k (fst ` set (p_fields p))"
    by (auto simp: point_field_def update_fresh [OF fresh])
  have kd: "k \<notin> fst ` set d"
    using Cons.prems(1) kv by auto
  have "fst ` set d \<inter> fst ` set (p_fields p) = {}"
    using Cons.prems(2) by auto
  with kd fs have "fst ` set d \<inter> fst ` set (p_fields (point_field k v p)) = {}"
    by blast
  with Cons.IH [of "point_field k v p"] Cons.prems(1)
  have "p_fields (fold (\<lambda>(k, v) p. point_field k v p) d (point_field k v p))
           = p_fields (point_field k v p) @ filter (\<lambda>(k, v). v \<noteq> PyNone) d"
    by simp
  then show ?case
    by (simp add: kv point_field_def update_fresh [OF fresh])
qed

lemma distinct_delete: "distinct (map fst d) \<Longrightarrow> distinct (map fst (AList.delete k d))"
  by (simp add: distinct_delete)

lemma snd_build_point: "snd (build_point m sm entry) = remaining entry"
  by (simp add: build_point_def dict_pop_def Let_def)

lemma p_fields_build_point:
  assumes "dict_ok entry"
  shows "p_fields (fst (build_point m sm entry))
           = filter (\<lambda>(k, v). v \<noteq> PyNone) (remaining entry)"
proof -
  have d: "distinct (map fst (remaining entry))"
    using assms by (simp add: dict_ok_def distinct_delete)
  show ?thesis
    using fold_point_field [OF d]
    by (simp add: build_point_def dict_pop_def Let_def Point_def
        split: option.splits)
qed


lemma fst_write_points:
  "fst (write_points_to_influx snk data_list m sm) = map remaining data_list"
  by (simp add: write_points_to_influx_def Let_def snd_build_point comp_def)

lemma snd_write_points:
  "snd (write_points_to_influx snk data_list m sm) =
     (if data_list = [] then snk else snk @ [map (\<lambda>entry. fst (build_point m sm entry)) data_list])"
  by (simp add: write_points_to_influx_def Let_def comp_def)

text \<open>
  Claim C3. For every record handed to the point builder, an attribute whose value is
  \<^verbatim>\<open>None\<close> gives no field of the point, and every other attribute that is left after
  \<^verbatim>\<open>station_id\<close> and \<^verbatim>\<open>time\<close> are taken out becomes a field, with its value, in the
  record's order. The batch written holds one point for each record.
\<close>

theorem null_fields_omitted:
  assumes "list_all dict_ok data_list"
  shows "\<exists>batch. length batch = length data_list \<and>
           snd (write_points_to_influx snk data_list m sm)
             = (if data_list = [] then snk else snk @ [batch]) \<and>
           map p_fields batch =
             map (\<lambda>entry. filter (\<lambda>(k, v). v \<noteq> PyNone)
                             (AList.delete ''time'' (AList.delete ''station_id'' entry)))
               data_list"
proof -
  let ?batch = "map (\<lambda>entry. fst (build_point m sm entry)) data_list"
  have "map p_fields ?batch =
          map (\<lambda>entry. filter (\<lambda>(k, v). v \<noteq> PyNone)
                             (AList.delete ''time'' (AList.delete ''station_id'' entry)))
               data_list"
    using assms by (simp add: list_all_iff p_fields_build_point)
  then show ?thesis
    using snd_write_points [of snk data_list m sm] by (intro exI [of _ ?batch]) simp
qed

text \<open>A temperature record whose humidity is missing: the point has the temperature
  field only.\<close>

theorem null_fields_omitted_witness:
  "list_all dict_ok
     [[(''station_id'', PyStr ''91''),
       (''time'', PyTime \<lparr>year = 2020, month = 1, day = 1, hour = 0, minute = 10\<rparr>),
       (''temperature_10min'', PyFloat (Finite (11 / 2))),
       (''humidity_10min'', PyNone)]]
   \<and> (\<exists>p. snd (write_points_to_influx []
              [[(''station_id'', PyStr ''91''),
                (''time'', PyTime \<lparr>year = 2020, month = 1, day = 1, hour = 0, minute = 10\<rparr>),
                (''temperature_10min'', PyFloat (Finite (11 / 2))),
                (''humidity_10min'', PyNone)]]
              ''temp_10min'' None) = [[p]]
          \<and> p_fields p = [(''temperature_10min'', PyFloat (Finite (11 / 2)))])"
proof -
  let ?d = "[[(''station_id'', PyStr ''91''),
       (''time'', PyTime \<lparr>year = 2020, month = 1, day = 1, hour = 0, minute = 10\<rparr>),
       (''temperature_10min'', PyFloat (Finite (11 / 2))),
       (''humidity_10min'', PyNone)]]"
  have ok: "list_all dict_ok ?d" by (simp add: dict_ok_def)
  from null_fields_omitted [OF ok, of "[]" "''temp_10min''" None]
  obtain batch where b: "length batch = length ?d"
    "snd (write_points_to_influx [] ?d ''temp_10min'' None) = (if ?d = [] then [] else [] @ [batch])"
    "map p_fields batch =
       map (\<lambda>entry. filter (\<lambda>(k, v). v \<noteq> PyNone)
                       (AList.delete ''time'' (AList.delete ''station_id'' entry))) ?d"
    by blast
  from b(1) obtain p where p: "batch = [p]"
    by (cases batch) auto
  from b(3) p have "p_fields p = [(''temperature_10min'', PyFloat (Finite (11 / 2)))]"
    by (simp add: AList.delete_eq)
  moreover from b(2) p have "snd (write_points_to_influx [] ?d ''temp_10min'' None) = [[p]]"
    by simp
  ultimately show ?thesis using ok by blast
qed


lemma point_field_keeps [simp]:
  "p_tags (point_field k v p) = p_tags p" "p_time (point_field k v p) = p_time p"
  by (simp_all add: point_field_def)

lemma fold_point_field_keeps:
  "p_tags (fold (\<lambda>(k, v) p. point_field k v p) d p) = p_tags p \<and>
   p_time (fold (\<lambda>(k, v) p. point_field k v p) d p) = p_time p"
  by (induction d arbitrary: p) (auto simp: case_prod_beta)

lemma remaining_has_no_identity:
  "map_of (remaining entry) ''station_id'' = None \<and> map_of (remaining entry) ''time'' = None"
  by (simp add: AList.delete_conv')

lemma build_point_again:
  "p_tags (fst (build_point m sm (remaining entry))) = [] \<and>
   p_time (fst (build_point m sm (remaining entry))) = PyNone"
proof -
  have a: "map_of (remaining entry) ''station_id'' = None"
    using remaining_has_no_identity by blast
  have b: "map_of (AList.delete ''station_id'' (remaining entry)) ''time'' = None"
    by (simp add: AList.delete_conv')
  show ?thesis
    by (simp add: build_point_def dict_pop_def Let_def a b fold_point_field_keeps Point_def)
qed

lemma build_point_first:
  assumes "map_of entry ''station_id'' = Some sid" "truthy sid"
    and "map_of entry ''time'' = Some ts" "truthy ts"
  shows "map_of (p_tags (fst (build_point m sm entry))) ''station_id'' = Some sid \<and>
         p_time (fst (build_point m sm entry)) = ts"
proof -
  have t: "map_of (AList.delete ''station_id'' entry) ''time'' = Some ts"
    using assms(3) by (simp add: AList.delete_conv')
  show ?thesis
    using assms t
    by (simp add: build_point_def dict_pop_def Let_def fold_point_field_keeps Point_def
        point_tag_def point_time_def AList.update_conv' split: option.splits)
qed

text \<open>
  Claim C9. The point builder changes the records it is given: it takes the keys
  \<^verbatim>\<open>station_id\<close> and \<^verbatim>\<open>time\<close> out of every record. A second call on the list the
  first call has left builds points with no tag and no time, whereas the first call, on a
  record with a station id and a time, tags the point with the id and gives it the time.
\<close>

theorem write_points_consumes_identity:
  "fst (write_points_to_influx snk data_list m sm) =
     map (\<lambda>entry. AList.delete ''time'' (AList.delete ''station_id'' entry)) data_list
   \<and> (\<exists>again. length again = length data_list \<and>
         snd (write_points_to_influx snk' (fst (write_points_to_influx snk data_list m sm)) m sm)
           = (if data_list = [] then snk' else snk' @ [again]) \<and>
         map p_tags again = replicate (length data_list) [] \<and>
         map p_time again = replicate (length data_list) PyNone)
   \<and> (map_of entry ''station_id'' = Some sid \<and> truthy sid \<and>
        map_of entry ''time'' = Some ts \<and> truthy ts \<longrightarrow>
        map_of (p_tags (fst (build_point m sm entry))) ''station_id'' = Some sid \<and>
        p_time (fst (build_point m sm entry)) = ts)"
proof -
  let ?left = "map (\<lambda>entry. AList.delete ''time'' (AList.delete ''station_id'' entry)) data_list"
  let ?again = "map (\<lambda>entry. fst (build_point m sm entry)) ?left"
  have 1: "fst (write_points_to_influx snk data_list m sm) = ?left"
    by (rule fst_write_points)
  have 2: "snd (write_points_to_influx snk' ?left m sm)
             = (if data_list = [] then snk' else snk' @ [?again])"
    using snd_write_points [of snk' ?left m sm] by simp
  have 3: "map p_tags ?again = replicate (length data_list) []"
    by (simp add: map_replicate_const [symmetric] comp_def build_point_again)
  have 4: "map p_time ?again = replicate (length data_list) PyNone"
    by (simp add: map_replicate_const [symmetric] comp_def build_point_again)
  have "\<exists>again. length again = length data_list \<and>
         snd (write_points_to_influx snk' (fst (write_points_to_influx snk data_list m sm)) m sm)
           = (if data_list = [] then snk' else snk' @ [again]) \<and>
         map p_tags again = replicate (length data_list) [] \<and>
         map p_time again = replicate (length data_list) PyNone"
    using 2 3 4 unfolding 1 by (intro exI [of _ ?again]) simp
  with 1 build_point_first [of entry sid ts m sm] show ?thesis by blast
qed


text \<open>One temperature record, written twice.\<close>

theorem write_points_consumes_identity_witness:
  "map_of temp_entry ''station_id'' = Some (PyStr ''91'') \<and> truthy (PyStr ''91'')
   \<and> map_of temp_entry ''time''
        = Some (PyTime \<lparr>year = 2020, month = 1, day = 1, hour = 0, minute = 10\<rparr>)
   \<and> truthy (PyTime \<lparr>year = 2020, month = 1, day = 1, hour = 0, minute = 10\<rparr>)
   \<and> fst (write_points_to_influx [] [temp_entry] ''temp_10min'' None)
        = [[(''temperature_10min'', PyFloat (Finite (11 / 2))), (''humidity_10min'', PyNone)]]
   \<and> map_of (p_tags (fst (build_point ''temp_10min'' None temp_entry))) ''station_id''
        = Some (PyStr ''91'')
   \<and> p_time (fst (build_point ''temp_10min'' None temp_entry))
        = PyTime \<lparr>year = 2020, month = 1, day = 1, hour = 0, minute = 10\<rparr>
   \<and> (\<exists>again.
         snd (write_points_to_influx []
                (fst (write_points_to_influx [] [temp_entry] ''temp_10min'' None))
                ''temp_10min'' None) = [[again]]
         \<and> p_tags again = [] \<and> p_time again = PyNone)"
proof -
  let ?t = "PyTime \<lparr>year = 2020, month = 1, day = 1, hour = 0, minute = 10\<rparr>"
  have h: "map_of temp_entry ''station_id'' = Some (PyStr ''91'')" "truthy (PyStr ''91'')"
    "map_of temp_entry ''time'' = Some ?t" "truthy ?t"
    by (simp_all add: temp_entry_def)
  have d: "map (\<lambda>entry. AList.delete ''time'' (AList.delete ''station_id'' entry)) [temp_entry]
       = [[(''temperature_10min'', PyFloat (Finite (11 / 2))), (''humidity_10min'', PyNone)]]"
    by (simp add: temp_entry_def AList.delete_eq)
  note inst = write_points_consumes_identity
    [of "[]" "[temp_entry]" "''temp_10min''" None "[]" temp_entry "PyStr ''91''" ?t]
  from inst obtain again where a: "length again = length [temp_entry]"
    "snd (write_points_to_influx []
            (fst (write_points_to_influx [] [temp_entry] ''temp_10min'' None))
            ''temp_10min'' None) = (if [temp_entry] = [] then [] else [] @ [again])"
    "map p_tags again = replicate (length [temp_entry]) []"
    "map p_time again = replicate (length [temp_entry]) PyNone"
    by blast
  from a(1) obtain p where p: "again = [p]" by (cases again) auto
  from a p have "snd (write_points_to_influx []
            (fst (write_points_to_influx [] [temp_entry] ''temp_10min'' None))
            ''temp_10min'' None) = [[p]] \<and> p_tags p = [] \<and> p_time p = PyNone"
    by simp
  moreover from inst have "fst (write_points_to_influx [] [temp_entry] ''temp_10min'' None)
        = [[(''temperature_10min'', PyFloat (Finite (11 / 2))), (''humidity_10min'', PyNone)]]"
    unfolding d by blast
  moreover from inst h have
    "map_of (p_tags (fst (build_point ''temp_10min'' None temp_entry))) ''station_id''
        = Some (PyStr ''91'') \<and>
     p_time (fst (build_point ''temp_10min'' None temp_entry)) = ?t"
    by blast
  ultimately show ?thesis using h by blast
qed

subsection \<open>The multi-annual means decoder\<close>

lemma means_file_lines:
  "str_splitlines means_file =
     [''Stations_id;Bezugszeitraum;Datenquelle;Jan.;Feb.;Mrz.;Apr.;Mai;Jun.;Jul.;Aug.;Sep.;Okt.;Nov.;Dez.;Jahr;'',
      ''00091;1961-1990;DWD;42,5;35,1;40,2;44,8;60,3;71,7;66,4;68,9;50,6;47,2;52,0;-999;579,7;'']"
  by (simp add: means_file_def str_eval)

lemma means_header_skipped:
  "means_line ''Stations_id;Bezugszeitraum;Datenquelle;Jan.;Feb.;Mrz.;Apr.;Mai;Jun.;Jul.;Aug.;Sep.;Okt.;Nov.;Dez.;Jahr;'' = []"
  by (simp add: means_line_def str_eval)

lemma means_line_parts:
  "map str_strip (str_split (CHR '';'')
     (str_strip ''00091;1961-1990;DWD;42,5;35,1;40,2;44,8;60,3;71,7;66,4;68,9;50,6;47,2;52,0;-999;579,7;''))
   = means_parts"
  by (simp add: means_parts_def str_eval)

lemma means_record_example: "means_record means_parts = Inr means_row_91"
  by (simp add: means_record_def month_value_def year_value_def item_def and_then_def
     means_parts_def means_row_91_def str_eval num_eval)

lemma means_line_example:
  "means_line ''00091;1961-1990;DWD;42,5;35,1;40,2;44,8;60,3;71,7;66,4;68,9;50,6;47,2;52,0;-999;579,7;''
     = [means_row_91]"
proof -
  have "str_strip ''00091;1961-1990;DWD;42,5;35,1;40,2;44,8;60,3;71,7;66,4;68,9;50,6;47,2;52,0;-999;579,7;''
      = ''00091;1961-1990;DWD;42,5;35,1;40,2;44,8;60,3;71,7;66,4;68,9;50,6;47,2;52,0;-999;579,7;''"
    by (simp add: str_eval)
  then show ?thesis
    using means_line_parts means_record_example
    by (simp add: means_line_def Let_def str_startswith_def)
qed

lemma parse_means_file: "parse_multi_annual_means means_file = [means_row_91]"
  by (simp add: parse_multi_annual_means_def means_file_lines means_header_skipped
      means_line_example)

lemma download_means_env:
  "download_file (means_env file) (multi_annual_url t short_period period) = Inr file"
  by (simp add: download_file_def means_env_def multi_annual_url_def str_startswith_def
      and_then_def)

lemma decode_means_env: "decode_utf8 (means_env file) b = b"
  by (simp add: means_env_def)








subsection \<open>The monthly points of a multi-annual record\<close>

lemma str_split_first:
  "\<exists>ps. str_split sep s = takeWhile (\<lambda>c. c \<noteq> sep) s # ps"
  by (induction s) (auto split: list.splits)

lemma item_str_split_0: "item (str_split sep s) 0 = Inr (takeWhile (\<lambda>c. c \<noteq> sep) s)"
  using str_split_first [of sep s] by (auto simp: item_def)

lemma start_year_of_eq:
  "start_year_of ref_period =
     (case py_int (takeWhile (\<lambda>c. c \<noteq> CHR ''-'') ref_period) of
        Inl e \<Rightarrow> Inl TypeError
      | Inr y \<Rightarrow> Inr y)"
  by (simp add: start_year_of_def item_str_split_0 and_then_def except_union_def
      split: sum.splits)

lemma first_of_month:
  assumes "1 \<le> y" "y \<le> 9999" "1 \<le> mn" "mn \<le> 12"
  shows "py_datetime y mn 1 0 0 = Inr \<lparr>year = y, month = mn, day = 1, hour = 0, minute = 0\<rparr>"
proof -
  have "1 \<le> days_in_month y mn"
    by (simp add: days_in_month_def)
  with assms show ?thesis
    by (simp add: py_datetime_def c_int_range_def)
qed

lemma row_points_valid:
  assumes "\<not> skipped_station station_ids (row_station_id row)"
    and "start_year_of (row_reference_period row) = Inr y" and "1 \<le> y" and "y \<le> 9999"
  shows "row_points station_ids row =
           Inr (map (\<lambda>(month_num, val).
                  [(''station_id'', PyStr (row_station_id row)),
                   (''time'', PyTime \<lparr>year = y, month = month_num, day = 1, hour = 0, minute = 0\<rparr>),
                   (''reference_period'', PyStr (row_reference_period row)),
                   (''value'', PyFloat val)])
                (month_values row))"
  using assms
  by (simp add: row_points_def Let_def and_then_def month_values_def month_point_def
      first_of_month)


















subsection \<open>A reference period that is no year\<close>

lemma bad_period_lines:
  "str_splitlines bad_period_file =
     [''Stations_id;Bezugszeitraum;Datenquelle;Jan.;Feb.;Mrz.;Apr.;Mai;Jun.;Jul.;Aug.;Sep.;Okt.;Nov.;Dez.;Jahr;'',
      ''00091;abcd-1990;DWD;42,5;35,1;40,2;44,8;60,3;71,7;66,4;68,9;50,6;47,2;52,0;61,3;640,0;'',
      ''00091;1961-1990;DWD;42,5;35,1;40,2;44,8;60,3;71,7;66,4;68,9;50,6;47,2;52,0;-999;579,7;'']"
  by (simp add: bad_period_file_def str_eval)

lemma bad_period_line:
  "map row_reference_period
     (means_line ''00091;abcd-1990;DWD;42,5;35,1;40,2;44,8;60,3;71,7;66,4;68,9;50,6;47,2;52,0;61,3;640,0;'')
   = [''abcd-1990'']
   \<and> map row_station_id
     (means_line ''00091;abcd-1990;DWD;42,5;35,1;40,2;44,8;60,3;71,7;66,4;68,9;50,6;47,2;52,0;61,3;640,0;'')
   = [''00091'']"
  by (simp add: means_line_def means_record_def month_value_def year_value_def item_def
      and_then_def str_eval num_eval)


lemma parse_bad_period_file:
  "\<exists>r. parse_multi_annual_means bad_period_file = [r, means_row_91]
       \<and> row_reference_period r = ''abcd-1990'' \<and> row_station_id r = ''00091''"
proof -
  from bad_period_line obtain r where
    r: "means_line ''00091;abcd-1990;DWD;42,5;35,1;40,2;44,8;60,3;71,7;66,4;68,9;50,6;47,2;52,0;61,3;640,0;'' = [r]"
      "row_reference_period r = ''abcd-1990''" "row_station_id r = ''00091''"
    by auto
  then show ?thesis
    by (simp add: parse_multi_annual_means_def bad_period_lines means_header_skipped
        means_line_example)
qed

lemma row_points_bad_period:
  assumes "\<not> skipped_station station_ids (row_station_id row)"
    and "py_int (takeWhile (\<lambda>c. c \<noteq> CHR ''-'') (row_reference_period row)) = Inl e"
  shows "row_points station_ids row = Inl TypeError"
  using assms by (simp add: row_points_def Let_def start_year_of_eq and_then_def)

lemma abcd_is_no_year: "py_int (takeWhile (\<lambda>c. c \<noteq> CHR ''-'') ''abcd-1990'') = Inl ValueError"
  by (simp add: str_eval num_eval)

lemma collect_bad_period_file:
  "collect (row_points None) (parse_multi_annual_means bad_period_file) = Inl TypeError"
proof -
  from parse_bad_period_file obtain r where
    r: "parse_multi_annual_means bad_period_file = [r, means_row_91]"
      "row_reference_period r = ''abcd-1990''"
    by blast
  have "row_points None r = Inl TypeError"
    using abcd_is_no_year r(2)
    by (intro row_points_bad_period [where e = ValueError]) (simp_all add: skipped_station_def)
  then show ?thesis by (simp add: r(1))
qed

lemma fetch_bad_period_file:
  "fetch_multi_annual_means (means_env bad_period_file) [] t sm None = (Some TypeError, [])"
proof -
  have "fetch_period (means_env bad_period_file) t sm None period [] = (Some TypeError, [])"
    for period
    by (simp add: fetch_period_def download_means_env decode_means_env collect_bad_period_file)
  then show ?thesis
    by (simp add: fetch_multi_annual_means_def PERIOD_STRINGS_def)
qed

text \<open>
  Claim C2 says that a record whose reference period gives no integer start year is
  dropped with a warning and that the run goes on. The code does not do that: the handler
  \<^verbatim>\<open>except ValueError | TypeError\<close> raises TypeError itself, which nothing catches. On
  the file whose first record has the period \<^verbatim>\<open>abcd-1990\<close> the loop over the rows
  raises, the valid record after it gives no point, and \<^verbatim>\<open>fetch_multi_annual_means\<close>
  and the whole \<^verbatim>\<open>init\<close> run end with TypeError and nothing written.
\<close>

theorem bad_reference_period_aborts:
  "map row_reference_period (parse_multi_annual_means bad_period_file)
     = [''abcd-1990'', ''1961-1990'']
   \<and> collect (row_points None) (parse_multi_annual_means bad_period_file) = Inl TypeError
   \<and> fetch_multi_annual_means (means_env bad_period_file) [] Precipitation None None
       = (Some TypeError, [])
   \<and> main (means_env bad_period_file) Init (StationIds [''00091'']) = (Some TypeError, [])"
proof -
  from parse_bad_period_file
  have "map row_reference_period (parse_multi_annual_means bad_period_file)
     = [''abcd-1990'', ''1961-1990'']"
    by (auto simp: means_row_91_def)
  moreover have "main (means_env bad_period_file) Init (StationIds [''00091''])
      = (Some TypeError, [])"
    by (simp add: main_def roster_def in_turn_def fetch_bad_period_file)
  ultimately show ?thesis
    using collect_bad_period_file fetch_bad_period_file by simp
qed

subsection \<open>The roster in \<^verbatim>\<open>init\<close> mode\<close>

lemma start_year_1961: "start_year_of (row_reference_period means_row_91) = Inr 1961"
  by (simp add: start_year_of_eq means_row_91_def str_eval num_eval)

lemma row_points_91: "row_points None means_row_91 = Inr means_points_91"
  unfolding means_points_91_def
  by (rule row_points_valid) (simp_all add: skipped_station_def start_year_1961)

lemma fetch_period_means_file:
  "fetch_period (means_env means_file) t sm None period snk
     = (None, snk @ [map (\<lambda>d. fst (build_point (''multi_annual_'' @ data_type_name t) sm d)) means_points_91])"
proof -
  have "means_points_91 \<noteq> []" by (simp add: means_points_91_def month_values_def)
  then show ?thesis
    by (simp add: fetch_period_def download_means_env decode_means_env parse_means_file
        row_points_91 snd_write_points)
qed

lemma fetch_means_file:
  "fetch_multi_annual_means (means_env means_file) snk t sm None
     = (None, snk @ replicate 4 (map (\<lambda>d. fst (build_point (''multi_annual_'' @ data_type_name t) sm d)) means_points_91))"
  by (simp add: fetch_multi_annual_means_def PERIOD_STRINGS_def fetch_period_means_file
      numeral_eq_Suc)

lemma fetch_means_file_filtered:
  "fetch_multi_annual_means (means_env means_file) [] t sm (Some [''00103'']) = (None, [])"
proof -
  have "row_points (Some [''00103'']) means_row_91 = Inr []"
    by (simp add: row_points_def skipped_station_def means_row_91_def)
  then have "fetch_period (means_env means_file) t sm (Some [''00103'']) period [] = (None, [])"
    for period
    by (simp add: fetch_period_def download_means_env decode_means_env parse_means_file
        snd_write_points)
  then show ?thesis
    by (simp add: fetch_multi_annual_means_def PERIOD_STRINGS_def)
qed

lemma no_archive_means_env:
  "fetch_recent_or_now_10min_data (means_env file) snk station_ids t per sm = (None, snk)"
proof -
  have d: "download_file (means_env file) (base @ recent_or_now_name t per sid) = Inl RequestException"
    if "base = RECENT_URLS t \<or> base = NOW_URLS t" for base sid
    using that
    by (auto simp: download_file_def means_env_def str_startswith_def RECENT_URLS_def NOW_URLS_def
        TEN_MINUTE_DATA_URL_def MULTI_ANNUAL_MEANS_URL_def BASE_URL_def and_then_def
        split: data_type.splits)
  have "for_each (\<lambda>station_id s.
             fetch_and_write_zip (means_env file) s (base @ recent_or_now_name t per station_id)
               t sm) ids snk = (None, snk)"
    if "base = RECENT_URLS t \<or> base = NOW_URLS t" for base ids
    by (induction ids) (simp_all add: fetch_and_write_zip_def d [OF that])
  then show ?thesis
    by (simp add: fetch_recent_or_now_10min_data_def Let_def)
qed

lemma tags_91:
  "map (\<lambda>d. p_tags (fst (build_point m (Some [(''00103'', [])]) d))) means_points_91
     = replicate 12 [(''station_id'', PyStr ''00091'')]"
  by (simp add: means_points_91_def month_values_def means_row_91_def build_point_def dict_pop_def Let_def
      AList.delete_eq Point_def point_tag_def point_time_def point_field_def station_name_def
      numeral_eq_Suc)

text \<open>
  Claim C1 says that in \<^verbatim>\<open>init\<close> mode the multi-annual means are written only for
  the stations of the roster. \<^verbatim>\<open>fetch_multi_annual_means\<close> has the test (and its
  docstring promises it), but \<^verbatim>\<open>main\<close> calls it without \<^verbatim>\<open>station_ids\<close>, so the
  test never applies. With the roster \<^verbatim>\<open>00103\<close> and a file that holds a record of
  station 00091 only, the run writes eight batches (four periods, two data types) of twelve
  points, all of station 00091; the same call with the roster passed writes nothing.
\<close>

theorem init_writes_stations_outside_roster:
  "fst (main (means_env means_file) Init (StationIds [''00103''])) = None
   \<and> map (map p_tags) (snd (main (means_env means_file) Init (StationIds [''00103''])))
       = replicate 8 (replicate 12 [(''station_id'', PyStr ''00091'')])
   \<and> fetch_multi_annual_means (means_env means_file) [] Precipitation
         (Some [(''00103'', [])]) (Some [''00103'']) = (None, [])"
proof -
  have "main (means_env means_file) Init (StationIds [''00103''])
      = (None,
         replicate 4 (map (\<lambda>d. fst (build_point ''multi_annual_precipitation''
                                       (Some [(''00103'', [])]) d)) means_points_91)
         @ replicate 4 (map (\<lambda>d. fst (build_point ''multi_annual_temperature''
                                       (Some [(''00103'', [])]) d)) means_points_91))"
    by (simp add: main_def roster_def in_turn_def fetch_means_file no_archive_means_env
        data_type_name_def)
  then show ?thesis
    using fetch_means_file_filtered [of Precipitation "Some [(''00103'', [])]"]
    by (simp add: tags_91 comp_def replicate_add [symmetric])
qed

subsection \<open>Fetch failures\<close>

lemma download_file_raises:
  "download_file e url = Inl err \<longleftrightarrow>
     requests_get e url = Inl err
     \<or> (\<exists>r. requests_get e url = Inr r \<and> 400 \<le> status_code r \<and> status_code r < 600
             \<and> err = HTTPError)"
  by (cases "requests_get e url") (auto simp: download_file_def and_then_def)

lemma failed_zip_is_logged:
  "download_file e full_url = Inl err \<Longrightarrow>
   (''Could not download %s: %s'', full_url) \<in> set (fetch_and_write_zip_errors e full_url)"
  by (simp add: fetch_and_write_zip_errors_def)

text \<open>
  Claim C5, as amended. A failed download of a ten-minute zip archive, that is a
  transport error of \<^verbatim>\<open>requests.get\<close> or an answer with a status from 400 to 599 (the
  cases in which \<^verbatim>\<open>download_file\<close> raises), is logged and the archive is skipped, and
  the run goes on with the remaining archives: \<^verbatim>\<open>fetch_and_write_zip\<close> hands the record
  ``Could not download'' to the logger, returns normally and leaves the sink as it was;
  in the recent and now modes the run is the one of the roster without that station; in
  historical mode it is the run over the selected archives without that one.
\<close>

theorem zip_fetch_failure_is_skipped:
  "(download_file e full_url = Inl err \<longleftrightarrow>
      requests_get e full_url = Inl err
      \<or> (\<exists>r. requests_get e full_url = Inr r \<and> 400 \<le> status_code r \<and> status_code r < 600
              \<and> err = HTTPError))
   \<and> (download_file e full_url = Inl err \<longrightarrow>
        fetch_and_write_zip e snk full_url t sm = (None, snk) \<and>
        (''Could not download %s: %s'', full_url) \<in> set (fetch_and_write_zip_errors e full_url))
   \<and> (download_file e ((if per = Recent then RECENT_URLS t else NOW_URLS t)
                          @ recent_or_now_name t per station_id) = Inl err \<longrightarrow>
        fetch_recent_or_now_10min_data e snk (before @ station_id # after) t per sm
          = fetch_recent_or_now_10min_data e snk (before @ after) t per sm)
   \<and> (list_dwd_files e (HISTORICAL_URLS t) (type_prefix t) hist_suffix = Inr all_filenames \<and>
        concat (map (station_files (type_prefix t) all_filenames) station_ids)
          = earlier @ zipfile_name # later \<and>
        download_file e (HISTORICAL_URLS t @ zipfile_name) = Inl err \<longrightarrow>
        fetch_historical_10min_data e snk station_ids t sm
          = for_each (\<lambda>zipfile_name s.
                fetch_and_write_zip e s (HISTORICAL_URLS t @ zipfile_name) t sm)
              (earlier @ later) snk)"
proof (intro conjI impI)
  show "download_file e full_url = Inl err \<longleftrightarrow>
      requests_get e full_url = Inl err
      \<or> (\<exists>r. requests_get e full_url = Inr r \<and> 400 \<le> status_code r \<and> status_code r < 600
              \<and> err = HTTPError)"
    by (rule download_file_raises)
next
  assume "download_file e full_url = Inl err"
  then show "fetch_and_write_zip e snk full_url t sm = (None, snk)"
    by (rule failed_zip_is_skipped)
next
  assume "download_file e full_url = Inl err"
  then show "(''Could not download %s: %s'', full_url)
      \<in> set (fetch_and_write_zip_errors e full_url)"
    by (rule failed_zip_is_logged)
next
  assume d: "download_file e ((if per = Recent then RECENT_URLS t else NOW_URLS t)
                          @ recent_or_now_name t per station_id) = Inl err"
  have "fetch_and_write_zip e s ((if per = Recent then RECENT_URLS t else NOW_URLS t)
                          @ recent_or_now_name t per station_id) t sm = (None, s)" for s
    using d by (rule failed_zip_is_skipped)
  then show "fetch_recent_or_now_10min_data e snk (before @ station_id # after) t per sm
          = fetch_recent_or_now_10min_data e snk (before @ after) t per sm"
    unfolding fetch_recent_or_now_10min_data_def Let_def
    by (intro for_each_skip)
next
  assume a: "list_dwd_files e (HISTORICAL_URLS t) (type_prefix t) hist_suffix = Inr all_filenames \<and>
        concat (map (station_files (type_prefix t) all_filenames) station_ids)
          = earlier @ zipfile_name # later \<and>
        download_file e (HISTORICAL_URLS t @ zipfile_name) = Inl err"
  then have "fetch_and_write_zip e s (HISTORICAL_URLS t @ zipfile_name) t sm = (None, s)" for s
    by (intro failed_zip_is_skipped) simp
  then have "for_each (\<lambda>zipfile_name s.
                fetch_and_write_zip e s (HISTORICAL_URLS t @ zipfile_name) t sm)
              (earlier @ zipfile_name # later) snk
        = for_each (\<lambda>zipfile_name s.
                fetch_and_write_zip e s (HISTORICAL_URLS t @ zipfile_name) t sm)
              (earlier @ later) snk"
    by (intro for_each_skip)
  with a show "fetch_historical_10min_data e snk station_ids t sm
          = for_each (\<lambda>zipfile_name s.
                fetch_and_write_zip e s (HISTORICAL_URLS t @ zipfile_name) t sm)
              (earlier @ later) snk"
    by (simp add: fetch_historical_flat)
qed

lemma flaky_get:
  "requests_get flaky_env (HISTORICAL_URLS Precipitation) = Inl RequestException"
  "requests_get flaky_env (HISTORICAL_URLS Temperature)
     = Inr \<lparr>status_code = 200, content = HISTORICAL_URLS Temperature\<rparr>"
  "requests_get flaky_env (multi_annual_url t short_period period)
     = Inr \<lparr>status_code = 503, content = []\<rparr>"
  "requests_get flaky_env (RECENT_URLS Temperature @ recent_or_now_name Temperature Recent ''00091'')
     = Inr \<lparr>status_code = 404, content = []\<rparr>"
  "requests_get flaky_env (RECENT_URLS Temperature @ recent_or_now_name Temperature Recent ''00092'')
     = Inr \<lparr>status_code = 200,
            content = RECENT_URLS Temperature @ recent_or_now_name Temperature Recent ''00092''\<rparr>"
  "requests_get flaky_env (NOW_URLS Temperature @ recent_or_now_name Temperature Now ''00091'')
     = Inr \<lparr>status_code = 301, content = ''moved''\<rparr>"
  "requests_get flaky_env
     (HISTORICAL_URLS Temperature @ ''10minutenwerte_TU_00091_19950101_20201231_hist.zip'')
     = Inr \<lparr>status_code = 404, content = []\<rparr>"
  "requests_get flaky_env
     (HISTORICAL_URLS Temperature @ ''10minutenwerte_TU_00092_19930428_20201231_hist.zip'')
     = Inr \<lparr>status_code = 200,
            content = HISTORICAL_URLS Temperature
                      @ ''10minutenwerte_TU_00092_19930428_20201231_hist.zip''\<rparr>"
  by (simp_all add: flaky_env_def url_eval str_startswith_def)

lemma flaky_listing_precipitation:
  "download_file flaky_env (HISTORICAL_URLS Precipitation) = Inl RequestException"
  by (simp add: download_file_def and_then_def flaky_get)

lemma flaky_listing_temperature:
  "download_file flaky_env (HISTORICAL_URLS Temperature) = Inr (HISTORICAL_URLS Temperature)"
  by (simp add: download_file_def and_then_def flaky_get)

lemma flaky_means:
  "download_file flaky_env (multi_annual_url t short_period period) = Inl HTTPError"
  by (simp add: download_file_def and_then_def flaky_get)

lemma flaky_recent:
  "download_file flaky_env (RECENT_URLS Temperature @ recent_or_now_name Temperature Recent ''00091'')
     = Inl HTTPError"
  "download_file flaky_env (RECENT_URLS Temperature @ recent_or_now_name Temperature Recent ''00092'')
     = Inr (RECENT_URLS Temperature @ recent_or_now_name Temperature Recent ''00092'')"
  by (simp_all add: download_file_def and_then_def flaky_get)

lemma flaky_now:
  "download_file flaky_env (NOW_URLS Temperature @ recent_or_now_name Temperature Now ''00091'')
     = Inr ''moved''"
  by (simp add: download_file_def and_then_def flaky_get)

lemma flaky_historical:
  "download_file flaky_env
     (HISTORICAL_URLS Temperature @ ''10minutenwerte_TU_00091_19950101_20201231_hist.zip'')
     = Inl HTTPError"
  "download_file flaky_env
     (HISTORICAL_URLS Temperature @ ''10minutenwerte_TU_00092_19930428_20201231_hist.zip'')
     = Inr (HISTORICAL_URLS Temperature @ ''10minutenwerte_TU_00092_19930428_20201231_hist.zip'')"
  by (simp_all add: download_file_def and_then_def flaky_get)

lemma flaky_zip:
  assumes "download_file flaky_env full_url = Inr b" "b \<noteq> ''moved''"
  shows "fetch_and_write_zip flaky_env snk full_url Temperature sm
           = (None, snk @ [[fst (build_point ''temp_10min'' sm temp_entry)]])"
proof -
  have m: "zip_members flaky_env b = Inr [(''produkt_zehn_min_tu_00092.txt'', Inr temp_file)]"
    and r: "csv_rows flaky_env = plain_reader"
    using assms(2) by (simp_all add: flaky_env_def)
  have t: "str_endswith ''produkt_zehn_min_tu_00092.txt'' ''.txt''"
    by (simp add: str_endswith_def suffix_def)
  show ?thesis
    by (simp add: fetch_and_write_zip_def assms(1) m write_member_def t r parse_temp_file
        snd_write_points)
qed

lemma flaky_moved:
  "fetch_and_write_zip flaky_env snk
     (NOW_URLS Temperature @ recent_or_now_name Temperature Now ''00091'') Temperature sm
     = (Some BadZipFile, snk)"
proof -
  have "zip_members flaky_env ''moved'' = Inl BadZipFile"
    by (simp add: flaky_env_def)
  then show ?thesis
    by (simp add: fetch_and_write_zip_def flaky_now)
qed

lemma flaky_list:
  "list_dwd_files flaky_env (HISTORICAL_URLS Temperature) (type_prefix Temperature) hist_suffix
     = Inr [''10minutenwerte_TU_00091_19950101_20201231_hist.zip'',
            ''10minutenwerte_TU_00092_19930428_20201231_hist.zip'']"
proof -
  have a: "anchor_hrefs flaky_env html =
        [Some ''10minutenwerte_TU_00091_19950101_20201231_hist.zip'',
         Some ''10minutenwerte_TU_00092_19930428_20201231_hist.zip'']" for html
    by (simp add: flaky_env_def)
  have s: "suffix ''_hist.zip'' ''10minutenwerte_TU_00091_19950101_20201231_hist.zip''"
    "suffix ''_hist.zip'' ''10minutenwerte_TU_00092_19930428_20201231_hist.zip''"
    by (simp_all add: suffix_to_prefix)
  show ?thesis
    by (simp add: list_dwd_files_def and_then_def flaky_listing_temperature a matching_href_def
        type_prefix_def hist_suffix_def str_startswith_def str_endswith_def s)
qed

lemma flaky_station_files:
  "station_files (type_prefix Temperature)
     [''10minutenwerte_TU_00091_19950101_20201231_hist.zip'',
      ''10minutenwerte_TU_00092_19930428_20201231_hist.zip''] ''00091''
     = [''10minutenwerte_TU_00091_19950101_20201231_hist.zip'']"
  "station_files (type_prefix Temperature)
     [''10minutenwerte_TU_00091_19950101_20201231_hist.zip'',
      ''10minutenwerte_TU_00092_19930428_20201231_hist.zip''] ''00092''
     = [''10minutenwerte_TU_00092_19930428_20201231_hist.zip'']"
  by (simp_all add: station_files_def type_prefix_def str_zfill_def str_startswith_def)

lemma not_moved:
  "HISTORICAL_URLS Temperature @ ''10minutenwerte_TU_00092_19930428_20201231_hist.zip'' \<noteq> ''moved''"
  "RECENT_URLS Temperature @ recent_or_now_name Temperature Recent ''00092'' \<noteq> ''moved''"
  by (simp_all add: url_eval)

lemma flaky_historical_92:
  "fetch_historical_10min_data flaky_env [] [''00092''] Temperature sm
     = (None, [[fst (build_point ''temp_10min'' sm temp_entry)]])"
  by (simp add: fetch_historical_flat [OF flaky_list] flaky_station_files
      flaky_zip [OF flaky_historical(2) not_moved(1)])

lemma flaky_recent_92:
  "fetch_recent_or_now_10min_data flaky_env [] [''00092''] Temperature Recent sm
     = (None, [[fst (build_point ''temp_10min'' sm temp_entry)]])"
  by (simp add: fetch_recent_or_now_10min_data_def flaky_zip [OF flaky_recent(2) not_moved(2)])

text \<open>
  Claim C5 as the spec states it (no single fetch failure, of an archive, a multi-annual
  file or a directory listing, with a transport error or any status that is not 2xx,
  aborts the run) fails. The failure of the first directory listing ends a historical
  run, although the temperature archives could have been written. The failure of a
  multi-annual file ends an \<^verbatim>\<open>init\<close> run, although the recent archive could have been
  written. An archive answered with the status 301 is not a failure for
  \<^verbatim>\<open>download_file\<close>: its body goes to the archive reader, whose exception ends the run
  before the archive of the next station is fetched.
\<close>

theorem fetch_failure_aborts_run:
  "main flaky_env Historical (StationIds [''00092'']) = (Some RequestException, [])
   \<and> fetch_historical_10min_data flaky_env [] [''00092''] Temperature None
       = (None, [[fst (build_point ''temp_10min'' None temp_entry)]])
   \<and> main flaky_env Init (StationIds [''00092'']) = (Some HTTPError, [])
   \<and> fetch_recent_or_now_10min_data flaky_env [] [''00092''] Temperature Recent None
       = (None, [[fst (build_point ''temp_10min'' None temp_entry)]])
   \<and> requests_get flaky_env (NOW_URLS Temperature @ recent_or_now_name Temperature Now ''00091'')
       = Inr \<lparr>status_code = 301, content = ''moved''\<rparr>
   \<and> fetch_recent_or_now_10min_data flaky_env [] [''00091'', ''00092''] Temperature Now None
       = (Some BadZipFile, [])"
proof -
  have h: "fetch_historical_10min_data flaky_env [] ids Precipitation sm
             = (Some RequestException, [])" for ids sm
    by (simp add: fetch_historical_10min_data_def list_dwd_files_def and_then_def
        flaky_listing_precipitation)
  have m: "fetch_multi_annual_means flaky_env [] t sm ids = (Some HTTPError, [])"
    for t sm ids
    by (simp add: fetch_multi_annual_means_def PERIOD_STRINGS_def fetch_period_def flaky_means)
  have "main flaky_env Historical (StationIds [''00092'']) = (Some RequestException, [])"
    by (simp add: main_def roster_def in_turn_def h)
  moreover have "main flaky_env Init (StationIds [''00092'']) = (Some HTTPError, [])"
    by (simp add: main_def roster_def in_turn_def m)
  moreover have "fetch_recent_or_now_10min_data flaky_env [] [''00091'', ''00092''] Temperature
      Now None = (Some BadZipFile, [])"
    by (simp add: fetch_recent_or_now_10min_data_def flaky_moved)
  ultimately show ?thesis
    by (simp add: flaky_historical_92 flaky_recent_92 flaky_get)
qed

text \<open>The archives of station 00091 are answered with 404, those of station 00092 are
  written.\<close>

theorem zip_fetch_failure_is_skipped_witness:
  "requests_get flaky_env
     (RECENT_URLS Temperature @ recent_or_now_name Temperature Recent ''00091'')
     = Inr \<lparr>status_code = 404, content = []\<rparr>
   \<and> download_file flaky_env
     (RECENT_URLS Temperature @ recent_or_now_name Temperature Recent ''00091'')
     = Inl HTTPError
   \<and> fetch_and_write_zip flaky_env []
        (RECENT_URLS Temperature @ recent_or_now_name Temperature Recent ''00091'')
        Temperature None = (None, [])
   \<and> (''Could not download %s: %s'',
       RECENT_URLS Temperature @ recent_or_now_name Temperature Recent ''00091'')
       \<in> set (fetch_and_write_zip_errors flaky_env
                 (RECENT_URLS Temperature @ recent_or_now_name Temperature Recent ''00091''))
   \<and> fetch_recent_or_now_10min_data flaky_env [] ([] @ ''00091'' # [''00092'']) Temperature
        Recent None = (None, [[fst (build_point ''temp_10min'' None temp_entry)]])
   \<and> list_dwd_files flaky_env (HISTORICAL_URLS Temperature) (type_prefix Temperature) hist_suffix
       = Inr [''10minutenwerte_TU_00091_19950101_20201231_hist.zip'',
              ''10minutenwerte_TU_00092_19930428_20201231_hist.zip'']
   \<and> concat (map (station_files (type_prefix Temperature)
                    [''10minutenwerte_TU_00091_19950101_20201231_hist.zip'',
                     ''10minutenwerte_TU_00092_19930428_20201231_hist.zip''])
          [''00091'', ''00092''])
       = [] @ ''10minutenwerte_TU_00091_19950101_20201231_hist.zip''
            # [''10minutenwerte_TU_00092_19930428_20201231_hist.zip'']
   \<and> download_file flaky_env
        (HISTORICAL_URLS Temperature @ ''10minutenwerte_TU_00091_19950101_20201231_hist.zip'')
       = Inl HTTPError
   \<and> fetch_historical_10min_data flaky_env [] [''00091'', ''00092''] Temperature None
       = (None, [[fst (build_point ''temp_10min'' None temp_entry)]])"
proof -
  let ?f91 = "''10minutenwerte_TU_00091_19950101_20201231_hist.zip''"
  let ?f92 = "''10minutenwerte_TU_00092_19930428_20201231_hist.zip''"
  let ?u91 = "RECENT_URLS Temperature @ recent_or_now_name Temperature Recent ''00091''"
  have c: "concat (map (station_files (type_prefix Temperature) [?f91, ?f92]) [''00091'', ''00092''])
       = [] @ ?f91 # [?f92]"
    by (simp add: flaky_station_files)
  have r: "download_file flaky_env
      ((if Recent = Recent then RECENT_URLS Temperature else NOW_URLS Temperature)
        @ recent_or_now_name Temperature Recent ''00091'') = Inl HTTPError"
    using flaky_recent(1) by simp
  note inst = zip_fetch_failure_is_skipped
    [where e = flaky_env and err = HTTPError and snk = "[]" and t = Temperature
       and sm = None and per = Recent and station_id = "''00091''" and before = "[]"
       and after = "[''00092'']" and all_filenames = "[?f91, ?f92]"
       and station_ids = "[''00091'', ''00092'']" and earlier = "[]" and zipfile_name = ?f91
       and later = "[?f92]" and full_url = ?u91]
  from inst flaky_get(4)
  have 0: "download_file flaky_env ?u91 = Inl HTTPError"
    by simp
  from inst 0
  have 1: "fetch_and_write_zip flaky_env [] ?u91 Temperature None = (None, [])"
    "(''Could not download %s: %s'', ?u91) \<in> set (fetch_and_write_zip_errors flaky_env ?u91)"
    by blast+
  from inst r
  have "fetch_recent_or_now_10min_data flaky_env [] ([] @ ''00091'' # [''00092'']) Temperature
          Recent None
        = fetch_recent_or_now_10min_data flaky_env [] ([] @ [''00092'']) Temperature Recent None"
    by blast
  then have 2: "fetch_recent_or_now_10min_data flaky_env [] ([] @ ''00091'' # [''00092''])
        Temperature Recent None = (None, [[fst (build_point ''temp_10min'' None temp_entry)]])"
    by (simp add: flaky_recent_92)
  from inst flaky_list c flaky_historical(1)
  have "fetch_historical_10min_data flaky_env [] [''00091'', ''00092''] Temperature None
        = for_each (\<lambda>zipfile_name s.
              fetch_and_write_zip flaky_env s (HISTORICAL_URLS Temperature @ zipfile_name)
                Temperature None)
            ([] @ [?f92]) []"
    by blast
  then have 3: "fetch_historical_10min_data flaky_env [] [''00091'', ''00092''] Temperature None
       = (None, [[fst (build_point ''temp_10min'' None temp_entry)]])"
    by (simp add: flaky_zip [OF flaky_historical(2) not_moved(1)])
  from 0 1 2 3 flaky_get(4) flaky_list c flaky_historical(1) show ?thesis
    by blast
qed

end
